theory Spec2Isabelle
  imports Main
begin

section \<open>The notebook service: stores, model registry and mime-type resolution\<close>

text \<open>
  A shallow embedding of \<^verbatim>\<open>notebookServiceImpl.ts\<close>. Every class of the file becomes a
  record of its fields, every method a function that takes the state it reads and returns
  the state it leaves. A \<^verbatim>\<open>throw\<close> is the \<open>Inl\<close> branch of a sum.
\<close>

subsection \<open>JavaScript \<^verbatim>\<open>Map\<close>: insertion-ordered, one entry per key\<close>

text \<open>
  A \<^verbatim>\<open>Map\<close> iterates in insertion order; \<^verbatim>\<open>set\<close> on a key that is present replaces
  the value where it stands, on a new key it appends. It is modelled as an association list.
\<close>

type_synonym ('k, 'v) Map = "('k \<times> 'v) list"

definition Map_has :: "('k, 'v) Map \<Rightarrow> 'k \<Rightarrow> bool" where
  "Map_has m k = (k \<in> set (map fst m))"

definition Map_get :: "('k, 'v) Map \<Rightarrow> 'k \<Rightarrow> 'v option" where
  "Map_get m k = map_of m k"

fun Map_set :: "('k, 'v) Map \<Rightarrow> 'k \<Rightarrow> 'v \<Rightarrow> ('k, 'v) Map" where
  "Map_set [] k v = [(k, v)]"
| "Map_set ((k', v') # m) k v = (if k' = k then (k, v) # m else (k', v') # Map_set m k v)"

definition Map_delete :: "('k, 'v) Map \<Rightarrow> 'k \<Rightarrow> ('k, 'v) Map" where
  "Map_delete m k = filter (\<lambda>kv. fst kv \<noteq> k) m"

definition Map_values :: "('k, 'v) Map \<Rightarrow> 'v list" where
  "Map_values m = map snd m"

subsection \<open>What \<^verbatim>\<open>notebookCommon\<close> and its neighbours provide\<close>

record URI =
  scheme :: string
  path :: string

type_synonym NotebookSelector = string
type_synonym INotebookDocumentFilter = string

text \<open>
  The constants and predicates that the service imports from modules outside this file.
  Their bodies are not part of the file, so they are parameters of the model: the two
  reserved renderer ids, the table of mime types that the core renders itself, the table of
  mime types that are safe in an untrusted document, the string value of
  \<^verbatim>\<open>NotebookEditorPriority.default\<close>, the document-filter matcher of the kernel providers
  and the matcher of one provider selector against a resource.
\<close>

record notebookCommon =
  BUILTIN_RENDERER_ID :: string
  RENDERER_NOT_AVAILABLE :: string
  mimeTypeSupportedByCore :: "string \<Rightarrow> bool"
  mimeTypeIsAlwaysSecure :: "string \<Rightarrow> bool"
  NotebookEditorPriority_default_token :: string
  notebookDocumentFilterMatch :: "INotebookDocumentFilter \<Rightarrow> string \<Rightarrow> URI \<Rightarrow> bool"
  selectorMatches :: "NotebookSelector \<Rightarrow> URI \<Rightarrow> bool"

subsection \<open>Output renderer store\<close>

record NotebookOutputRendererInfo =
  renderer_id :: string
  renderer_extension :: string
  renderer_entrypoint :: string
  renderer_displayName :: string
  renderer_mimeTypes :: "string list"

text \<open>
  Modelled from the spec: \<^verbatim>\<open>NotebookOutputRendererInfo.matches\<close> lives in
  \<^verbatim>\<open>notebookOutputRenderer.ts\<close>, which is not part of the file. The spec gives a renderer a
  "set of supported mime types (exact match, no globbing)".
\<close>

definition renderer_matches :: "NotebookOutputRendererInfo \<Rightarrow> string \<Rightarrow> bool" where
  "renderer_matches info mimeType = (mimeType \<in> set (renderer_mimeTypes info))"

type_synonym NotebookOutputRendererInfoStore = "(string, NotebookOutputRendererInfo) Map"

definition renderers_clear :: "NotebookOutputRendererInfoStore \<Rightarrow> NotebookOutputRendererInfoStore" where
  "renderers_clear contributedRenderers = []"

definition renderers_get ::
  "NotebookOutputRendererInfoStore \<Rightarrow> string \<Rightarrow> NotebookOutputRendererInfo option" where
  "renderers_get contributedRenderers viewType = Map_get contributedRenderers viewType"

definition renderers_add ::
  "NotebookOutputRendererInfo \<Rightarrow> NotebookOutputRendererInfoStore \<Rightarrow> NotebookOutputRendererInfoStore" where
  "renderers_add info contributedRenderers =
     (if Map_has contributedRenderers (renderer_id info) then contributedRenderers
      else Map_set contributedRenderers (renderer_id info) info)"

definition getContributedRenderer ::
  "NotebookOutputRendererInfoStore \<Rightarrow> string \<Rightarrow> NotebookOutputRendererInfo list" where
  "getContributedRenderer contributedRenderers mimeType =
     filter (\<lambda>customEditor. renderer_matches customEditor mimeType) (Map_values contributedRenderers)"

subsection \<open>Provider info store\<close>

datatype NotebookEditorPriority = Priority_default | Priority_option

record TransientOptions =
  transientOutputs :: bool
  transientMetadata :: "string list"

record NotebookProviderInfo =
  info_id :: string
  info_displayName :: string
  info_selectors :: "NotebookSelector list"
  info_priority :: NotebookEditorPriority
  info_providerExtensionId :: "string option"
  info_providerDescription :: "string option"
  info_providerDisplayName :: string
  info_providerExtensionLocation :: URI
  info_dynamicContribution :: bool
  info_exclusive :: bool
  info_options :: "TransientOptions option"

text \<open>
  Modelled from the spec: the class \<^verbatim>\<open>NotebookProviderInfo\<close> lives in
  \<^verbatim>\<open>notebookProvider.ts\<close>, which is not part of the file. Its \<^verbatim>\<open>matches\<close> is, in the
  spec's words, "every entry whose selector set matches the resource": some selector of the
  entry matches. Its \<^verbatim>\<open>update\<close> replaces the selectors or the stored options ("always
  refreshes that entry's stored options").
\<close>

definition info_matches :: "notebookCommon \<Rightarrow> NotebookProviderInfo \<Rightarrow> URI \<Rightarrow> bool" where
  "info_matches nc info resource = list_ex (\<lambda>selector. selectorMatches nc selector resource) (info_selectors info)"

definition info_update_selectors :: "NotebookSelector list \<Rightarrow> NotebookProviderInfo \<Rightarrow> NotebookProviderInfo" where
  "info_update_selectors selectors info = info\<lparr>info_selectors := selectors\<rparr>"

definition info_update_options :: "TransientOptions \<Rightarrow> NotebookProviderInfo \<Rightarrow> NotebookProviderInfo" where
  "info_update_options options info = info\<lparr>info_options := Some options\<rparr>"

text \<open>
  The store: the \<^verbatim>\<open>_handled\<close> flag, the map \<^verbatim>\<open>_contributedEditors\<close>, the array that
  \<^verbatim>\<open>saveMemento\<close> last wrote under the key \<^verbatim>\<open>editors\<close>, and the two arrays of
  \<^verbatim>\<open>NotebookViewTypesExtensionRegistry\<close> that \<^verbatim>\<open>_updateProviderExtensionsInfo\<close> rebuilds.
\<close>

record NotebookProviderInfoStore =
  handled :: bool
  contributedEditors :: "(string, NotebookProviderInfo) Map"
  memento_editors :: "NotebookProviderInfo list"
  registry_viewTypes :: "string list"
  registry_viewTypeDescriptions :: "string list"

record INotebookEditorContribution =
  contribution_viewType :: string
  contribution_displayName :: string
  contribution_selector :: "NotebookSelector list option"
  contribution_priority :: "string option"

record IExtensionDescription =
  identifier_value :: string
  description_description :: "string option"
  description_displayName :: "string option"
  isBuiltin :: bool
  extensionLocation :: URI

record IExtensionPointUser =
  extension_description :: IExtensionDescription
  extension_value :: "INotebookEditorContribution list"

definition providers_updateProviderExtensionsInfo :: "NotebookProviderInfoStore \<Rightarrow> NotebookProviderInfoStore" where
  "providers_updateProviderExtensionsInfo s =
     (let contributes = filter (\<lambda>contribute. case info_providerExtensionId contribute of
                                   None \<Rightarrow> False | Some e \<Rightarrow> e \<noteq> [])
                          (Map_values (contributedEditors s))
      in s\<lparr>registry_viewTypes := map info_id contributes,
            registry_viewTypeDescriptions := map info_displayName contributes\<rparr>)"

text \<open>
  \<^verbatim>\<open>!priority\<close> holds for a missing priority and for the empty string.
\<close>

definition convertPriority :: "notebookCommon \<Rightarrow> string option \<Rightarrow> NotebookEditorPriority" where
  "convertPriority nc priority =
     (case priority of
        None \<Rightarrow> Priority_default
      | Some p \<Rightarrow>
          if p = [] then Priority_default
          else if p = NotebookEditorPriority_default_token nc then Priority_default
          else Priority_option)"

definition providers_clear :: "NotebookProviderInfoStore \<Rightarrow> NotebookProviderInfoStore" where
  "providers_clear s = s\<lparr>contributedEditors := []\<rparr>"

definition providers_get :: "NotebookProviderInfoStore \<Rightarrow> string \<Rightarrow> NotebookProviderInfo option" where
  "providers_get s viewType = Map_get (contributedEditors s) viewType"

definition providers_add :: "NotebookProviderInfo \<Rightarrow> NotebookProviderInfoStore \<Rightarrow> NotebookProviderInfoStore" where
  "providers_add info s =
     (if Map_has (contributedEditors s) (info_id info) then s
      else
        let editors = Map_set (contributedEditors s) (info_id info) info
        in s\<lparr>contributedEditors := editors, memento_editors := Map_values editors\<rparr>)"

definition getContributedNotebook ::
  "notebookCommon \<Rightarrow> NotebookProviderInfoStore \<Rightarrow> URI \<Rightarrow> NotebookProviderInfo list" where
  "getContributedNotebook nc s resource =
     filter (\<lambda>customEditor. scheme resource = ''untitled'' \<or> info_matches nc customEditor resource)
       (Map_values (contributedEditors s))"

text \<open>
  The entry that \<^verbatim>\<open>setupHandler\<close> builds for one contribution of one extension.
  \<^verbatim>\<open>localize\<close> is given its default message; \<open>a || b\<close> takes \<open>b\<close> when \<open>a\<close> is
  missing or empty.
\<close>

definition contributedInfo ::
  "notebookCommon \<Rightarrow> IExtensionPointUser \<Rightarrow> INotebookEditorContribution \<Rightarrow> NotebookProviderInfo" where
  "contributedInfo nc extension notebookContribution =
     \<lparr>info_id = contribution_viewType notebookContribution,
      info_displayName = contribution_displayName notebookContribution,
      info_selectors = (case contribution_selector notebookContribution of
                          None \<Rightarrow> [] | Some sel \<Rightarrow> sel),
      info_priority = convertPriority nc (contribution_priority notebookContribution),
      info_providerExtensionId = Some (identifier_value (extension_description extension)),
      info_providerDescription = description_description (extension_description extension),
      info_providerDisplayName =
        (if isBuiltin (extension_description extension) then ''Built-in''
         else case description_displayName (extension_description extension) of
                None \<Rightarrow> identifier_value (extension_description extension)
              | Some n \<Rightarrow> if n = [] then identifier_value (extension_description extension) else n),
      info_providerExtensionLocation = extensionLocation (extension_description extension),
      info_dynamicContribution = False,
      info_exclusive = False,
      info_options = None\<rparr>"

definition setupHandler ::
  "notebookCommon \<Rightarrow> IExtensionPointUser list \<Rightarrow> NotebookProviderInfoStore \<Rightarrow> NotebookProviderInfoStore" where
  "setupHandler nc extensions s =
     (let s1 = providers_clear (s\<lparr>handled := True\<rparr>);
          s2 = foldl (\<lambda>acc extension.
                 foldl (\<lambda>acc' notebookContribution.
                          providers_add (contributedInfo nc extension notebookContribution) acc')
                   acc (extension_value extension))
               s1 extensions;
          s3 = s2\<lparr>memento_editors := Map_values (contributedEditors s2)\<rparr>
      in providers_updateProviderExtensionsInfo s3)"

subsection \<open>Promises\<close>

text \<open>
  How an asynchronous operation ends: it is fulfilled with a value or rejected with a reason
  at some turn of the event loop, or it stays pending for ever. The turn is a number; of two
  promises that settle in the same turn the one created first is taken to settle first.
\<close>

datatype 'a Promise = Fulfilled nat 'a | Rejected nat string | Pending





subsection \<open>Kernel provider store\<close>

record INotebookKernel =
  kernel_friendlyId :: string
  kernel_label :: string

record INotebookKernelProvider =
  provider_handle :: nat
  provider_extensionId :: string
  provider_description :: "string option"
  provider_selector :: INotebookDocumentFilter
  provideKernels :: "URI \<Rightarrow> INotebookKernel list Promise"

text \<open>
  The store: the array \<^verbatim>\<open>_notebookKernelProviders\<close> and the two arrays of
  \<^verbatim>\<open>NotebookKernelProviderAssociationRegistry\<close> that every change rebuilds.
\<close>

record NotebookKernelProviderInfoStore =
  notebookKernelProviders :: "INotebookKernelProvider list"
  association_extensionIds :: "string list"
  association_extensionDescriptions :: "string list"

definition kernels_updateProviderExtensionsInfo ::
  "NotebookKernelProviderInfoStore \<Rightarrow> NotebookKernelProviderInfoStore" where
  "kernels_updateProviderExtensionsInfo s =
     s\<lparr>association_extensionIds := map provider_extensionId (notebookKernelProviders s),
       association_extensionDescriptions :=
         map (\<lambda>provider. case provider_description provider of None \<Rightarrow> [] | Some d \<Rightarrow> d)
           (notebookKernelProviders s)\<rparr>"


text \<open>
  The function that \<^verbatim>\<open>toDisposable\<close> wraps in \<^verbatim>\<open>add\<close>. \<^verbatim>\<open>indexOf\<close> compares objects
  by identity, which is the handle of the provider here; \<^verbatim>\<open>splice(idx, 1)\<close> takes out the
  first such provider, if there is one.
\<close>

fun removeFirst :: "('a \<Rightarrow> bool) \<Rightarrow> 'a list \<Rightarrow> 'a list" where
  "removeFirst P [] = []"
| "removeFirst P (x # xs) = (if P x then xs else x # removeFirst P xs)"

definition kernels_dispose ::
  "INotebookKernelProvider \<Rightarrow> NotebookKernelProviderInfoStore \<Rightarrow> NotebookKernelProviderInfoStore" where
  "kernels_dispose provider s =
     kernels_updateProviderExtensionsInfo
       (s\<lparr>notebookKernelProviders :=
            removeFirst (\<lambda>p. provider_handle p = provider_handle provider) (notebookKernelProviders s)\<rparr>)"





subsection \<open>The service\<close>

record IOutputItemDto =
  mime :: string
  item_value :: string

record IOutputDto =
  outputs :: "IOutputItemDto list"
  outputId :: string

record NotebookDocumentMetadata =
  trusted :: bool
  editable :: bool

record NotebookDataDto =
  data_cells :: "string list"
  data_metadata :: NotebookDocumentMetadata

text \<open>
  A notebook text model is an object: \<open>model_handle\<close> is its identity, the other fields are
  what the constructor was given. What changes over its life (whether the registry's
  listener is attached to its will-dispose signal, whether it has been disposed) is kept in
  the service state below, under its handle.
\<close>

record NotebookTextModel =
  model_handle :: nat
  model_viewType :: string
  model_uri :: URI
  model_cells :: "string list"
  metadata :: NotebookDocumentMetadata
  model_transientOptions :: TransientOptions

record ModelData =
  model :: NotebookTextModel

record IOrderedMimeType =
  mimeType :: string
  rendererId :: string
  isTrusted :: bool

record DisplayOrder =
  userOrder :: "string list option"
  defaultOrder :: "string list"

record NotebookViewOptions =
  viewOptions_displayName :: string
  viewOptions_filenamePattern :: "NotebookSelector list"
  viewOptions_exclusive :: bool

record IMainNotebookController =
  controller_handle :: nat
  viewOptions :: "NotebookViewOptions option"
  controller_options :: TransientOptions

record NotebookExtensionDescription =
  extensionData_id :: string
  extensionData_location :: URI
  extensionData_description :: "string option"

record INotebookProviderData =
  controller :: IMainNotebookController
  extensionData :: NotebookExtensionDescription

text \<open>
  What the service does that others can see, in the order it does it: the writes to the
  model index, the calls of \<^verbatim>\<open>dispose\<close> on a model and on its \<^verbatim>\<open>ModelData\<close>, and the
  events it fires.
\<close>

datatype effect =
    ModelsSet URI nat
  | ModelsDelete URI
  | ModelDispose nat
  | ModelDataDispose nat
  | Fire_DidAddNotebookDocument NotebookTextModel
  | Fire_DidRemoveNotebookDocument URI
  | Fire_DidChangeEditorTypes

datatype error =
    NotebookAlreadyExists URI
  | ControllerAlreadyExists string

text \<open>
  The fields of \<^verbatim>\<open>NotebookService\<close> that the modelled methods touch. \<^verbatim>\<open>ResourceMap\<close>
  is a map keyed by the resource. The last four fields are the trace of effects and the
  state of the model objects: the next free handle, the handles of the models whose
  will-dispose signal still carries the listener of their \<^verbatim>\<open>ModelData\<close>, and the handles
  of the models on which \<^verbatim>\<open>dispose\<close> has run.
\<close>

record NotebookService =
  notebookProviders :: "(string, INotebookProviderData) Map"
  notebookProviderInfoStore :: NotebookProviderInfoStore
  notebookRenderersInfoStore :: NotebookOutputRendererInfoStore
  notebookKernelProviderInfoStore :: NotebookKernelProviderInfoStore
  models :: "(URI, ModelData) Map"
  displayOrder :: DisplayOrder
  trace :: "effect list"
  nextModelHandle :: nat
  willDisposeListeners :: "nat set"
  disposedModels :: "nat set"


subsection \<open>Controllers\<close>

datatype IDisposable = ControllerRegistration string

definition dynamicInfo ::
  "string \<Rightarrow> NotebookExtensionDescription \<Rightarrow> IMainNotebookController \<Rightarrow> NotebookViewOptions \<Rightarrow>
   NotebookProviderInfo" where
  "dynamicInfo viewType extData ctrl vo =
     info_update_options (controller_options ctrl)
       (info_update_selectors (viewOptions_filenamePattern vo)
          \<lparr>info_id = viewType,
           info_displayName = viewOptions_displayName vo,
           info_selectors = [],
           info_priority = Priority_default,
           info_providerExtensionId = Some (extensionData_id extData),
           info_providerDescription = extensionData_description extData,
           info_providerDisplayName = extensionData_id extData,
           info_providerExtensionLocation = extensionData_location extData,
           info_dynamicContribution = True,
           info_exclusive = viewOptions_exclusive vo,
           info_options = None\<rparr>)"

text \<open>
  \<^verbatim>\<open>this._notebookProviderInfoStore.get(viewType)?.update({ options })\<close>: the entry is an
  object of the map, so the update is seen in the map, and there is none without an entry.
\<close>

definition providers_updateOptions ::
  "string \<Rightarrow> TransientOptions \<Rightarrow> NotebookProviderInfoStore \<Rightarrow> NotebookProviderInfoStore" where
  "providers_updateOptions viewType options store =
     (case providers_get store viewType of
        None \<Rightarrow> store
      | Some info \<Rightarrow>
          store\<lparr>contributedEditors :=
            Map_set (contributedEditors store) viewType (info_update_options options info)\<rparr>)"

definition registerNotebookController ::
  "string \<Rightarrow> NotebookExtensionDescription \<Rightarrow> IMainNotebookController \<Rightarrow> NotebookService \<Rightarrow>
   (error + IDisposable) \<times> NotebookService" where
  "registerNotebookController viewType extData ctrl s =
     (if Map_has (notebookProviders s) viewType then (Inl (ControllerAlreadyExists viewType), s)
      else
        let s1 = s\<lparr>notebookProviders :=
                    Map_set (notebookProviders s) viewType \<lparr>controller = ctrl, extensionData = extData\<rparr>\<rparr>;
            s2 = (case viewOptions ctrl of
                    None \<Rightarrow> s1
                  | Some vo \<Rightarrow>
                      if providers_get (notebookProviderInfoStore s1) viewType = None
                      then s1\<lparr>notebookProviderInfoStore :=
                                providers_add (dynamicInfo viewType extData ctrl vo)
                                  (notebookProviderInfoStore s1)\<rparr>
                      else s1);
            s3 = s2\<lparr>notebookProviderInfoStore :=
                      providers_updateOptions viewType (controller_options ctrl)
                        (notebookProviderInfoStore s2)\<rparr>;
            s4 = s3\<lparr>trace := trace s3 @ [Fire_DidChangeEditorTypes]\<rparr>
        in (Inr (ControllerRegistration viewType), s4))"

text \<open>The function that \<^verbatim>\<open>toDisposable\<close> wraps in \<^verbatim>\<open>registerNotebookController\<close>.\<close>

fun dispose :: "IDisposable \<Rightarrow> NotebookService \<Rightarrow> NotebookService" where
  "dispose (ControllerRegistration viewType) s =
     (let s1 = s\<lparr>notebookProviders := Map_delete (notebookProviders s) viewType\<rparr>
      in s1\<lparr>trace := trace s1 @ [Fire_DidChangeEditorTypes]\<rparr>)"

definition getContributedNotebookProvider :: "NotebookService \<Rightarrow> string \<Rightarrow> NotebookProviderInfo option" where
  "getContributedNotebookProvider s viewType = providers_get (notebookProviderInfoStore s) viewType"

subsection \<open>Model registry\<close>

text \<open>
  \<^verbatim>\<open>createInstance(NotebookTextModel, ...)\<close> makes a new object; the constructor of
  \<^verbatim>\<open>ModelData\<close> attaches its listener to the will-dispose signal of the model.
\<close>

definition createNotebookTextModel ::
  "string \<Rightarrow> URI \<Rightarrow> NotebookDataDto \<Rightarrow> TransientOptions \<Rightarrow> NotebookService \<Rightarrow>
   (error + NotebookTextModel) \<times> NotebookService" where
  "createNotebookTextModel viewType uri data transientOptions s =
     (if Map_has (models s) uri then (Inl (NotebookAlreadyExists uri), s)
      else
        let notebookModel =
              \<lparr>model_handle = nextModelHandle s, model_viewType = viewType, model_uri = uri,
               model_cells = data_cells data, metadata = data_metadata data,
               model_transientOptions = transientOptions\<rparr>;
            s1 = s\<lparr>nextModelHandle := Suc (nextModelHandle s)\<rparr>;
            s2 = s1\<lparr>willDisposeListeners := insert (model_handle notebookModel) (willDisposeListeners s1)\<rparr>;
            s3 = s2\<lparr>models := Map_set (models s2) uri \<lparr>model = notebookModel\<rparr>,
                    trace := trace s2 @ [ModelsSet uri (model_handle notebookModel)]\<rparr>;
            s4 = s3\<lparr>trace := trace s3 @ [Fire_DidAddNotebookDocument notebookModel]\<rparr>
        in (Inr notebookModel, s4))"

definition getNotebookTextModel :: "NotebookService \<Rightarrow> URI \<Rightarrow> NotebookTextModel option" where
  "getNotebookTextModel s uri = map_option model (Map_get (models s) uri)"

definition listNotebookDocuments :: "NotebookService \<Rightarrow> NotebookTextModel list" where
  "listNotebookDocuments s = map (\<lambda>e. model (snd e)) (models s)"

definition models_delete :: "URI \<Rightarrow> NotebookService \<Rightarrow> NotebookService" where
  "models_delete uri s =
     s\<lparr>models := Map_delete (models s) uri, trace := trace s @ [ModelsDelete uri]\<rparr>"

definition ModelData_dispose :: "ModelData \<Rightarrow> NotebookService \<Rightarrow> NotebookService" where
  "ModelData_dispose modelData s =
     s\<lparr>willDisposeListeners := willDisposeListeners s - {model_handle (model modelData)},
       trace := trace s @ [ModelDataDispose (model_handle (model modelData))]\<rparr>"

definition fire_DidRemoveNotebookDocument :: "URI \<Rightarrow> NotebookService \<Rightarrow> NotebookService" where
  "fire_DidRemoveNotebookDocument uri s = s\<lparr>trace := trace s @ [Fire_DidRemoveNotebookDocument uri]\<rparr>"

definition model_dispose_begin :: "NotebookTextModel \<Rightarrow> NotebookService \<Rightarrow> NotebookService" where
  "model_dispose_begin m s = s\<lparr>trace := trace s @ [ModelDispose (model_handle m)]\<rparr>"

definition model_dispose_end :: "NotebookTextModel \<Rightarrow> NotebookService \<Rightarrow> NotebookService" where
  "model_dispose_end m s = s\<lparr>disposedModels := insert (model_handle m) (disposedModels s)\<rparr>"

text \<open>
  \<^verbatim>\<open>_onWillDisposeDocument\<close>, and the \<^verbatim>\<open>dispose\<close> of a notebook text model that it calls.

  Modelled from the spec: \<^verbatim>\<open>NotebookTextModel.dispose\<close> lives in \<^verbatim>\<open>notebookTextModel.ts\<close>,
  which is not part of the file. The spec has the model raise its own "about to dispose"
  signal when it is disposed; the wrapper that \<^verbatim>\<open>ModelData\<close> registered forwards the signal
  to \<^verbatim>\<open>_onWillDisposeDocument\<close> for as long as its listener is attached. So the two functions
  call each other; each round takes an entry out of the model index.
\<close>

function onWillDisposeDocument :: "NotebookTextModel \<Rightarrow> NotebookService \<Rightarrow> NotebookService"
  and NotebookTextModel_dispose :: "NotebookTextModel \<Rightarrow> NotebookService \<Rightarrow> NotebookService" where
  "onWillDisposeDocument m s =
     (case Map_get (models s) (model_uri m) of
        None \<Rightarrow> models_delete (model_uri m) s
      | Some modelData \<Rightarrow>
          fire_DidRemoveNotebookDocument (model_uri (model modelData))
            (ModelData_dispose modelData
               (NotebookTextModel_dispose (model modelData) (models_delete (model_uri m) s))))"
| "NotebookTextModel_dispose m s =
     model_dispose_end m
       (if model_handle m \<in> willDisposeListeners (model_dispose_begin m s)
        then onWillDisposeDocument m (model_dispose_begin m s)
        else model_dispose_begin m s)"
  by pat_completeness auto
termination
proof (relation "measure (\<lambda>x. case x of
          Inl (m, s) \<Rightarrow> 2 * length (models s)
        | Inr (m, s) \<Rightarrow> 2 * length (models s) + 1)")
  show "wf (measure (\<lambda>x. case x of
          Inl (m, s) \<Rightarrow> 2 * length (models s)
        | Inr (m, s) \<Rightarrow> 2 * length (models s) + 1))"
    by simp
next
  fix m :: NotebookTextModel and s :: NotebookService and modelData :: ModelData
  assume "Map_get (models s) (model_uri m) = Some modelData"
  then have "(model_uri m, modelData) \<in> set (models s)"
    by (simp add: Map_get_def map_of_SomeD)
  then have "length (filter (\<lambda>kv. fst kv \<noteq> model_uri m) (models s)) < length (models s)"
    by (rule length_filter_less) simp
  then show "(Inr (model modelData, models_delete (model_uri m) s), Inl (m, s))
      \<in> measure (\<lambda>x. case x of
          Inl (m, s) \<Rightarrow> 2 * length (models s)
        | Inr (m, s) \<Rightarrow> 2 * length (models s) + 1)"
    by (simp add: models_delete_def Map_delete_def)
next
  fix m :: NotebookTextModel and s :: NotebookService
  show "(Inl (m, model_dispose_begin m s), Inr (m, s))
      \<in> measure (\<lambda>x. case x of
          Inl (m, s) \<Rightarrow> 2 * length (models s)
        | Inr (m, s) \<Rightarrow> 2 * length (models s) + 1)"
    by (simp add: model_dispose_begin_def)
qed

declare onWillDisposeDocument.simps [simp del] NotebookTextModel_dispose.simps [simp del]

definition destoryNotebookDocument :: "string \<Rightarrow> NotebookTextModel \<Rightarrow> NotebookService \<Rightarrow> NotebookService" where
  "destoryNotebookDocument viewType notebook s = onWillDisposeDocument notebook s"

subsection \<open>Mime-type resolution\<close>

text \<open>
  The first loop of \<^verbatim>\<open>getMimeTypeInfo\<close>: \<open>mimeTypeSet\<close> is the set of mime types seen so
  far, \<open>mimeTypes\<close> the array they are pushed onto the first time they are seen.
\<close>

fun collectMimeTypes :: "string set \<Rightarrow> string list \<Rightarrow> IOutputItemDto list \<Rightarrow> string list" where
  "collectMimeTypes mimeTypeSet mimeTypes [] = mimeTypes"
| "collectMimeTypes mimeTypeSet mimeTypes (op # ops) =
     (if mime op \<notin> mimeTypeSet
      then collectMimeTypes (insert (mime op) mimeTypeSet) (mimeTypes @ [mime op]) ops
      else collectMimeTypes mimeTypeSet mimeTypes ops)"

fun indexOf :: "'a list \<Rightarrow> 'a \<Rightarrow> nat" where
  "indexOf [] x = 0"
| "indexOf (y # ys) x = (if y = x then 0 else Suc (indexOf ys x))"

text \<open>
  Modelled from the spec: \<^verbatim>\<open>sortMimeTypes\<close> lives in \<^verbatim>\<open>notebookCommon.ts\<close>, which is not
  part of the file. The spec: "user order takes priority over the accessibility-derived
  default order; items present in a preference list are ordered by their position there;
  items absent from both preference lists retain their relative dedup order, sorted after
  all preferred items". The rank of a mime type is its position in the user list, else its
  position in the default list counted after the user list, else the position after both;
  the sort by rank is the stable insertion sort.
\<close>

definition mimeTypeRank :: "string list \<Rightarrow> string list \<Rightarrow> string \<Rightarrow> nat" where
  "mimeTypeRank userDisplayOrder defaultDisplayOrder m =
     (if m \<in> set userDisplayOrder then indexOf userDisplayOrder m
      else if m \<in> set defaultDisplayOrder
        then length userDisplayOrder + indexOf defaultDisplayOrder m
      else length userDisplayOrder + length defaultDisplayOrder)"

definition sortMimeTypes :: "string list \<Rightarrow> string list \<Rightarrow> string list \<Rightarrow> string list" where
  "sortMimeTypes mimeTypes userDisplayOrder defaultDisplayOrder =
     sort_key (mimeTypeRank userDisplayOrder defaultDisplayOrder) mimeTypes"

definition findBestMatchedRenderer :: "NotebookService \<Rightarrow> string \<Rightarrow> NotebookOutputRendererInfo list" where
  "findBestMatchedRenderer s mt = getContributedRenderer (notebookRenderersInfoStore s) mt"

text \<open>
  The body of \<^verbatim>\<open>sorted.forEach\<close>: one call pushes the entries of one mime type onto
  \<open>orderMimeTypes\<close>. The inner \<^verbatim>\<open>for\<close> loop runs over the indices from 1 on.
\<close>

definition pushOrderedMimeTypes ::
  "notebookCommon \<Rightarrow> NotebookService \<Rightarrow> NotebookTextModel \<Rightarrow>
   IOrderedMimeType list \<Rightarrow> string \<Rightarrow> IOrderedMimeType list" where
  "pushOrderedMimeTypes nc s textModel orderMimeTypes m =
     (let handlers = findBestMatchedRenderer s m in
      if length handlers \<noteq> 0 then
        let handler = hd handlers;
            acc1 = orderMimeTypes @
              [\<lparr>mimeType = m, rendererId = renderer_id handler,
                isTrusted = trusted (metadata textModel)\<rparr>];
            acc2 = foldl (\<lambda>acc i. acc @
              [\<lparr>mimeType = m, rendererId = renderer_id (handlers ! i),
                isTrusted = trusted (metadata textModel)\<rparr>]) acc1 [1 ..< length handlers]
        in
          if mimeTypeSupportedByCore nc m then
            acc2 @ [\<lparr>mimeType = m, rendererId = BUILTIN_RENDERER_ID nc,
                     isTrusted = (mimeTypeIsAlwaysSecure nc m \<or> trusted (metadata textModel))\<rparr>]
          else acc2
      else
        if mimeTypeSupportedByCore nc m then
          orderMimeTypes @ [\<lparr>mimeType = m, rendererId = BUILTIN_RENDERER_ID nc,
                     isTrusted = (mimeTypeIsAlwaysSecure nc m \<or> trusted (metadata textModel))\<rparr>]
        else
          orderMimeTypes @ [\<lparr>mimeType = m, rendererId = RENDERER_NOT_AVAILABLE nc,
                     isTrusted = trusted (metadata textModel)\<rparr>])"

definition getMimeTypeInfo ::
  "notebookCommon \<Rightarrow> NotebookService \<Rightarrow> NotebookTextModel \<Rightarrow> IOutputDto \<Rightarrow> IOrderedMimeType list" where
  "getMimeTypeInfo nc s textModel output =
     (let mimeTypes = collectMimeTypes {} [] (outputs output);
          coreDisplayOrder = displayOrder s;
          sorted = sortMimeTypes mimeTypes
                     (case userOrder coreDisplayOrder of None \<Rightarrow> [] | Some order \<Rightarrow> order)
                     (defaultOrder coreDisplayOrder)
      in foldl (pushOrderedMimeTypes nc s textModel) [] sorted)"

subsection \<open>Notions used in the statements and proofs\<close>

text \<open>
  The entries that one mime type contributes to the result of \<^verbatim>\<open>getMimeTypeInfo\<close>: one
  per matching renderer, then the built-in renderer if the core supports the mime type, or the
  sentinel if nothing renders it. The lemmas below show that the loops of the method compute
  exactly this.
\<close>

definition entriesOf ::
  "notebookCommon \<Rightarrow> NotebookService \<Rightarrow> NotebookTextModel \<Rightarrow> string \<Rightarrow> IOrderedMimeType list" where
  "entriesOf nc s textModel m =
     map (\<lambda>h. \<lparr>mimeType = m, rendererId = renderer_id h, isTrusted = trusted (metadata textModel)\<rparr>)
       (findBestMatchedRenderer s m)
     @ (if mimeTypeSupportedByCore nc m
        then [\<lparr>mimeType = m, rendererId = BUILTIN_RENDERER_ID nc,
               isTrusted = (mimeTypeIsAlwaysSecure nc m \<or> trusted (metadata textModel))\<rparr>]
        else if findBestMatchedRenderer s m = []
        then [\<lparr>mimeType = m, rendererId = RENDERER_NOT_AVAILABLE nc,
               isTrusted = trusted (metadata textModel)\<rparr>]
        else [])"

text \<open>
  The mime types of an output, deduplicated and sorted, as \<^verbatim>\<open>getMimeTypeInfo\<close> walks them.
\<close>

definition sortedMimeTypes :: "NotebookService \<Rightarrow> IOutputDto \<Rightarrow> string list" where
  "sortedMimeTypes s output =
     sortMimeTypes (collectMimeTypes {} [] (outputs output))
       (case userOrder (displayOrder s) of None \<Rightarrow> [] | Some order \<Rightarrow> order)
       (defaultOrder (displayOrder s))"

text \<open>
  The invariant of the model index: an entry is stored under the resource of its model, the
  listener of its \<^verbatim>\<open>ModelData\<close> is attached, its handle has been handed out, and no
  resource and no model occurs twice.
\<close>

definition registry_wf :: "NotebookService \<Rightarrow> bool" where
  "registry_wf s =
     (list_all (\<lambda>e. model_uri (model (snd e)) = fst e
                  \<and> model_handle (model (snd e)) \<in> willDisposeListeners s
                  \<and> model_handle (model (snd e)) < nextModelHandle s) (models s)
      \<and> distinct (map fst (models s))
      \<and> distinct (map (\<lambda>e. model_handle (model (snd e))) (models s)))"

text \<open>
  The resources of the removal events in a trace, in the order they were fired.
\<close>

fun removalEvents :: "effect list \<Rightarrow> URI list" where
  "removalEvents [] = []"
| "removalEvents (Fire_DidRemoveNotebookDocument uri # es) = uri # removalEvents es"
| "removalEvents (e # es) = removalEvents es"


text \<open>
  The declarations that \<^verbatim>\<open>setupHandler\<close> walks, each with the extension it belongs
  to, in the order of the two nested loops.
\<close>

definition declarations ::
  "IExtensionPointUser list \<Rightarrow> (IExtensionPointUser \<times> INotebookEditorContribution) list" where
  "declarations extensions =
     concat (map (\<lambda>extension. map (\<lambda>notebookContribution. (extension, notebookContribution))
                                (extension_value extension)) extensions)"

subsection \<open>Example inputs\<close>

text \<open>
  A table for the parameters, the states right after construction, and a few registrations
  and documents. The theorems are applied to them further down.
\<close>

definition example_common :: notebookCommon where
  "example_common =
     \<lparr>BUILTIN_RENDERER_ID = ''_builtin'',
      RENDERER_NOT_AVAILABLE = ''_notAvailable'',
      mimeTypeSupportedByCore = (\<lambda>m. m \<in> set [''text/plain'', ''image/png'', ''text/html'']),
      mimeTypeIsAlwaysSecure = (\<lambda>m. m \<in> set [''text/plain'', ''image/png'']),
      NotebookEditorPriority_default_token = ''default'',
      notebookDocumentFilterMatch = (\<lambda>selector viewType resource. selector = viewType),
      selectorMatches = (\<lambda>selector resource.
         drop (length (path resource) - length selector) (path resource) = selector)\<rparr>"

definition example_untitled :: URI where
  "example_untitled = \<lparr>scheme = ''untitled'', path = ''Untitled-1''\<rparr>"

definition example_file :: URI where
  "example_file = \<lparr>scheme = ''file'', path = ''/a.ipynb''\<rparr>"

definition newProviderInfoStore :: NotebookProviderInfoStore where
  "newProviderInfoStore =
     \<lparr>handled = False, contributedEditors = [], memento_editors = [],
      registry_viewTypes = [], registry_viewTypeDescriptions = []\<rparr>"

definition newNotebookService :: NotebookService where
  "newNotebookService =
     \<lparr>notebookProviders = [],
      notebookProviderInfoStore = newProviderInfoStore,
      notebookRenderersInfoStore = [],
      notebookKernelProviderInfoStore =
        \<lparr>notebookKernelProviders = [], association_extensionIds = [],
         association_extensionDescriptions = []\<rparr>,
      models = [],
      displayOrder = \<lparr>userOrder = None, defaultOrder = []\<rparr>,
      trace = [],
      nextModelHandle = 0,
      willDisposeListeners = {},
      disposedModels = {}\<rparr>"

definition example_renderers :: NotebookOutputRendererInfoStore where
  "example_renderers =
     renderers_add \<lparr>renderer_id = ''r1'', renderer_extension = ''ext.c'', renderer_entrypoint = ''c.js'',
                     renderer_displayName = ''Late'', renderer_mimeTypes = [''image/png'']\<rparr>
    (renderers_add \<lparr>renderer_id = ''r2'', renderer_extension = ''ext.b'', renderer_entrypoint = ''b.js'',
                     renderer_displayName = ''Second'', renderer_mimeTypes = [''text/html'', ''application/x-custom'']\<rparr>
    (renderers_add \<lparr>renderer_id = ''r1'', renderer_extension = ''ext.a'', renderer_entrypoint = ''a.js'',
                     renderer_displayName = ''First'', renderer_mimeTypes = [''text/html'']\<rparr>
       (renderers_clear [])))"

definition example_service :: NotebookService where
  "example_service =
     newNotebookService\<lparr>notebookRenderersInfoStore := example_renderers,
                         displayOrder := \<lparr>userOrder = Some [''image/png''], defaultOrder = []\<rparr>\<rparr>"

definition example_untrusted :: NotebookTextModel where
  "example_untrusted =
     \<lparr>model_handle = 0, model_viewType = ''jupyter-notebook'', model_uri = example_file,
      model_cells = [''print(1)''], metadata = \<lparr>trusted = False, editable = True\<rparr>,
      model_transientOptions = \<lparr>transientOutputs = False, transientMetadata = []\<rparr>\<rparr>"

definition example_output :: IOutputDto where
  "example_output =
     \<lparr>outputs = [\<lparr>mime = ''text/html'', item_value = ''<b>1</b>''\<rparr>,
                 \<lparr>mime = ''text/plain'', item_value = ''1''\<rparr>,
                 \<lparr>mime = ''text/html'', item_value = ''<i>1</i>''\<rparr>,
                 \<lparr>mime = ''application/x-unknown'', item_value = ''?''\<rparr>,
                 \<lparr>mime = ''image/png'', item_value = ''iVBOR''\<rparr>],
      outputId = ''o1''\<rparr>"

definition example_trusted_elsewhere :: NotebookTextModel where
  "example_trusted_elsewhere =
     \<lparr>model_handle = 7, model_viewType = ''other'', model_uri = example_untitled,
      model_cells = [], metadata = \<lparr>trusted = False, editable = False\<rparr>,
      model_transientOptions = \<lparr>transientOutputs = True, transientMetadata = []\<rparr>\<rparr>"

definition example_output_again :: IOutputDto where
  "example_output_again =
     \<lparr>outputs = [\<lparr>mime = ''text/html'', item_value = ''<p>2</p>''\<rparr>,
                 \<lparr>mime = ''text/plain'', item_value = ''2''\<rparr>,
                 \<lparr>mime = ''text/html'', item_value = ''''\<rparr>,
                 \<lparr>mime = ''application/x-unknown'', item_value = ''!''\<rparr>,
                 \<lparr>mime = ''image/png'', item_value = ''AAAA''\<rparr>],
      outputId = ''o2''\<rparr>"

definition example_service_later :: NotebookService where
  "example_service_later =
     example_service\<lparr>trace := [Fire_DidChangeEditorTypes], nextModelHandle := 8\<rparr>"

definition example_data :: NotebookDataDto where
  "example_data = \<lparr>data_cells = [''print(1)''], data_metadata = \<lparr>trusted = False, editable = True\<rparr>\<rparr>"

definition example_options :: TransientOptions where
  "example_options = \<lparr>transientOutputs = False, transientMetadata = []\<rparr>"

definition example_registered :: NotebookService where
  "example_registered =
     snd (createNotebookTextModel ''jupyter-notebook'' example_file example_data example_options
            newNotebookService)"












definition example_contribution_absent :: INotebookEditorContribution where
  "example_contribution_absent =
     \<lparr>contribution_viewType = ''jupyter-notebook'', contribution_displayName = ''Jupyter Notebook'',
      contribution_selector = Some [''.ipynb''], contribution_priority = None\<rparr>"

definition example_contribution_empty :: INotebookEditorContribution where
  "example_contribution_empty =
     \<lparr>contribution_viewType = ''empty-priority'', contribution_displayName = ''Empty'',
      contribution_selector = None, contribution_priority = Some ''''\<rparr>"

definition example_contribution_option :: INotebookEditorContribution where
  "example_contribution_option =
     \<lparr>contribution_viewType = ''interactive'', contribution_displayName = ''Interactive'',
      contribution_selector = Some [''.interactive''], contribution_priority = Some ''option''\<rparr>"

definition example_contribution_default :: INotebookEditorContribution where
  "example_contribution_default =
     \<lparr>contribution_viewType = ''exact'', contribution_displayName = ''Exact'',
      contribution_selector = Some [''.nb''], contribution_priority = Some ''default''\<rparr>"

definition example_contribution_duplicate :: INotebookEditorContribution where
  "example_contribution_duplicate =
     \<lparr>contribution_viewType = ''jupyter-notebook'', contribution_displayName = ''Second Jupyter'',
      contribution_selector = Some [''.txt''], contribution_priority = Some ''option''\<rparr>"

definition example_extension :: IExtensionPointUser where
  "example_extension =
     \<lparr>extension_description =
        \<lparr>identifier_value = ''ms-toolsai.jupyter'', description_description = Some ''Jupyter notebooks'',
         description_displayName = Some ''Jupyter'', isBuiltin = False,
         extensionLocation = \<lparr>scheme = ''file'', path = ''/extensions/jupyter''\<rparr>\<rparr>,
      extension_value =
        [example_contribution_absent, example_contribution_empty, example_contribution_option,
         example_contribution_default, example_contribution_duplicate]\<rparr>"

definition example_providers :: NotebookProviderInfoStore where
  "example_providers = setupHandler example_common [example_extension] newProviderInfoStore"

definition example_late_renderer :: NotebookOutputRendererInfo where
  "example_late_renderer =
     \<lparr>renderer_id = ''r1'', renderer_extension = ''ext.c'', renderer_entrypoint = ''c.js'',
      renderer_displayName = ''Late'', renderer_mimeTypes = [''image/png'']\<rparr>"

definition example_extensionData :: NotebookExtensionDescription where
  "example_extensionData =
     \<lparr>extensionData_id = ''acme.dynamic'',
      extensionData_location = \<lparr>scheme = ''file'', path = ''/extensions/dynamic''\<rparr>,
      extensionData_description = Some ''Dynamic notebooks''\<rparr>"

definition example_controller :: IMainNotebookController where
  "example_controller =
     \<lparr>controller_handle = 1,
      viewOptions = Some \<lparr>viewOptions_displayName = ''Dynamic'', viewOptions_filenamePattern = [''.dyn''],
                          viewOptions_exclusive = False\<rparr>,
      controller_options = \<lparr>transientOutputs = True, transientMetadata = []\<rparr>\<rparr>"

definition example_controller_registered :: NotebookService where
  "example_controller_registered =
     snd (registerNotebookController ''dynamic-view'' example_extensionData example_controller
            newNotebookService)"

section \<open>Maps\<close>

lemma Map_has_get: "Map_has m k \<longleftrightarrow> Map_get m k \<noteq> None"
  by (simp add: Map_has_def Map_get_def map_of_eq_None_iff)

lemma set_Map_set_subset: "set (Map_set m k v) \<subseteq> insert (k, v) (set m)"
  by (induction m k v rule: Map_set.induct) auto

lemma Map_get_Map_set: "Map_get (Map_set m k v) k' = (if k' = k then Some v else Map_get m k')"
  by (induction m k v rule: Map_set.induct) (auto simp: Map_get_def)

lemma Map_get_Map_delete: "Map_get (Map_delete m k) k' = (if k' = k then None else Map_get m k')"
  by (induction m) (auto simp: Map_get_def Map_delete_def)

lemma Map_set_new: "\<not> Map_has m k \<Longrightarrow> Map_set m k v = m @ [(k, v)]"
  by (induction m k v rule: Map_set.induct) (auto simp: Map_has_def)

section \<open>The two id-keyed stores\<close>

text \<open>
  Claim C9. In the provider-info store and in the output-renderer store alike, \<^verbatim>\<open>add\<close>
  with an info whose id is already present changes nothing: the store after the call is the
  store before it, and \<^verbatim>\<open>get\<close> of that id still returns the entry that was registered
  first, not the new one.
\<close>

theorem add_existing_id_is_noop:
  "(providers_get ps (info_id info) = Some original \<longrightarrow>
      providers_add info ps = ps \<and> providers_get (providers_add info ps) (info_id info) = Some original)
   \<and> (renderers_get rs (renderer_id rinfo) = Some roriginal \<longrightarrow>
      renderers_add rinfo rs = rs \<and> renderers_get (renderers_add rinfo rs) (renderer_id rinfo) = Some roriginal)"
  by (simp add: providers_add_def renderers_add_def providers_get_def renderers_get_def Map_has_get)

text \<open>
  Claim C8. For a resource whose scheme is \<^verbatim>\<open>untitled\<close>, \<^verbatim>\<open>getContributedNotebook\<close>
  returns every provider of the store, whatever its selectors; for any other resource it
  returns exactly the providers one of whose selectors matches, in the order of the store.
\<close>

theorem getContributedNotebook_untitled:
  "(scheme resource = ''untitled'' \<longrightarrow>
      getContributedNotebook nc s resource = Map_values (contributedEditors s))
   \<and> (scheme resource \<noteq> ''untitled'' \<longrightarrow>
      getContributedNotebook nc s resource =
        filter (\<lambda>info. info_matches nc info resource) (Map_values (contributedEditors s)))"
  by (simp add: getContributedNotebook_def)

section \<open>Priorities of declared providers\<close>

lemma convertPriority_cases:
  "convertPriority nc priority =
     (if priority = None \<or> priority = Some [] \<or> priority = Some (NotebookEditorPriority_default_token nc)
      then Priority_default else Priority_option)"
  by (simp add: convertPriority_def split: option.splits)

lemma providers_add_editors:
  "contributedEditors (providers_add info s) =
     (if Map_has (contributedEditors s) (info_id info) then contributedEditors s
      else Map_set (contributedEditors s) (info_id info) info)"
  by (simp add: providers_add_def Let_def)

lemma providers_add_values:
  "set (contributedEditors (providers_add info s)) \<subseteq> insert (info_id info, info) (set (contributedEditors s))"
  using set_Map_set_subset[of "contributedEditors s" "info_id info" info]
  by (auto simp: providers_add_def Let_def)

lemma inner_fold_values:
  "snd ` set (contributedEditors (foldl (\<lambda>acc' c. providers_add (contributedInfo nc ext c) acc') s cs))
     \<subseteq> snd ` set (contributedEditors s) \<union> contributedInfo nc ext ` set cs"
proof (induction cs arbitrary: s)
  case Nil show ?case by simp
next
  case (Cons c cs)
  have "snd ` set (contributedEditors (providers_add (contributedInfo nc ext c) s))
      \<subseteq> insert (contributedInfo nc ext c) (snd ` set (contributedEditors s))"
    using providers_add_values[of "contributedInfo nc ext c" s] by force
  with Cons.IH[of "providers_add (contributedInfo nc ext c) s"] show ?case
    by auto
qed

lemma outer_fold_values:
  "snd ` set (contributedEditors (foldl (\<lambda>acc ext.
        foldl (\<lambda>acc' c. providers_add (contributedInfo nc ext c) acc') acc (extension_value ext)) s exts))
     \<subseteq> snd ` set (contributedEditors s) \<union> (\<Union>ext \<in> set exts. contributedInfo nc ext ` set (extension_value ext))"
proof (induction exts arbitrary: s)
  case Nil show ?case by simp
next
  case (Cons e es)
  show ?case
    using Cons.IH[of "foldl (\<lambda>acc' c. providers_add (contributedInfo nc e c) acc') s (extension_value e)"]
      inner_fold_values[of nc e s "extension_value e"]
    by auto
qed

lemma setupHandler_editors:
  "contributedEditors (setupHandler nc exts s) =
   contributedEditors (foldl (\<lambda>acc ext.
        foldl (\<lambda>acc' c. providers_add (contributedInfo nc ext c) acc') acc (extension_value ext))
        (providers_clear (s\<lparr>handled := True\<rparr>)) exts)"
  by (simp add: setupHandler_def Let_def providers_updateProviderExtensionsInfo_def)

lemma setupHandler_declared:
  assumes "info \<in> set (Map_values (contributedEditors (setupHandler nc exts s)))"
  shows "\<exists>ext \<in> set exts. \<exists>c \<in> set (extension_value ext). info = contributedInfo nc ext c"
proof -
  let ?s0 = "providers_clear (s\<lparr>handled := True\<rparr>)"
  have e: "snd ` set (contributedEditors ?s0) = {}"
    by (simp add: providers_clear_def)
  have "info \<in> snd ` set (contributedEditors (setupHandler nc exts s))"
    using assms by (simp add: Map_values_def)
  then have "info \<in> snd ` set (contributedEditors ?s0) \<union>
      (\<Union>ext \<in> set exts. contributedInfo nc ext ` set (extension_value ext))"
    unfolding setupHandler_editors using outer_fold_values[of nc ?s0 exts] by (rule rev_subsetD)
  then have "info \<in> (\<Union>ext \<in> set exts. contributedInfo nc ext ` set (extension_value ext))"
    unfolding e by simp
  then show ?thesis by blast
qed

lemma setupHandler_fold_declarations:
  "foldl (\<lambda>acc ext. foldl (\<lambda>acc' c. providers_add (contributedInfo nc ext c) acc') acc
                       (extension_value ext)) s exts
   = foldl (\<lambda>acc d. providers_add (contributedInfo nc (fst d) (snd d)) acc) s (declarations exts)"
proof (induction exts arbitrary: s)
  case Nil
  show ?case by (simp add: declarations_def)
next
  case (Cons e es)
  have "declarations (e # es) = map (\<lambda>c. (e, c)) (extension_value e) @ declarations es"
    by (simp add: declarations_def)
  then show ?case
    by (simp add: Cons.IH foldl_map)
qed

lemma fold_providers_add_get:
  "Map_get (contributedEditors (foldl (\<lambda>acc d. providers_add (f d) acc) s ds)) k =
     (case Map_get (contributedEditors s) k of
        Some v \<Rightarrow> Some v
      | None \<Rightarrow> map_option f (find (\<lambda>d. info_id (f d) = k) ds))"
proof (induction ds arbitrary: s)
  case Nil
  show ?case by (simp split: option.splits)
next
  case (Cons d ds)
  have step: "Map_get (contributedEditors (providers_add (f d) s)) k =
      (case Map_get (contributedEditors s) k of
         Some v \<Rightarrow> Some v
       | None \<Rightarrow> if info_id (f d) = k then Some (f d) else None)"
    by (auto simp: providers_add_editors Map_has_get Map_get_Map_set split: option.splits)
  show ?case
    unfolding foldl_Cons Cons.IH step
    by (simp split: option.splits)
qed

lemma setupHandler_get:
  "providers_get (setupHandler nc exts s) vt =
     map_option (\<lambda>d. contributedInfo nc (fst d) (snd d))
       (find (\<lambda>d. contribution_viewType (snd d) = vt) (declarations exts))"
proof -
  have id: "info_id (contributedInfo nc (fst d) (snd d)) = contribution_viewType (snd d)" for d
    by (simp add: contributedInfo_def)
  have "Map_get (contributedEditors (providers_clear (s\<lparr>handled := True\<rparr>))) vt = None"
    by (simp add: providers_clear_def Map_get_def)
  then show ?thesis
    unfolding providers_get_def setupHandler_editors setupHandler_fold_declarations
      fold_providers_add_get
    by (simp add: id)
qed

lemma contributedInfo_priority:
  "info_id (contributedInfo nc ext c) = contribution_viewType c \<and>
   info_priority (contributedInfo nc ext c) =
     (if contribution_priority c = None \<or> contribution_priority c = Some []
         \<or> contribution_priority c = Some (NotebookEditorPriority_default_token nc)
      then Priority_default else Priority_option)"
  by (simp add: contributedInfo_def convertPriority_cases)

text \<open>
  Claim C7, as the code has it. \<^verbatim>\<open>setupHandler\<close> converts the priority string of
  every declaration it processes: a missing priority, the empty string and the exact default
  token give the default priority, every other string gives the option priority. What the
  store holds afterwards is fixed by the declarations: a lookup of a view type returns the
  entry built from the first declaration of that view type, with the priority converted from
  that declaration, and nothing if no declaration has that view type. So every declaration
  finds an entry under its view type, and every entry comes from a declaration. (The claim
  as worded, that only the exact default token gives the default priority, fails for a
  declaration without a priority and for the empty string, as the example inputs show
  further down.)
\<close>

theorem setupHandler_priority:
  "(\<forall>vt. providers_get (setupHandler nc exts s) vt =
       map_option (\<lambda>d. contributedInfo nc (fst d) (snd d))
         (find (\<lambda>d. contribution_viewType (snd d) = vt) (declarations exts)))
   \<and> (\<forall>d \<in> set (declarations exts).
        info_id (contributedInfo nc (fst d) (snd d)) = contribution_viewType (snd d) \<and>
        info_priority (contributedInfo nc (fst d) (snd d)) =
          (if contribution_priority (snd d) = None \<or> contribution_priority (snd d) = Some []
              \<or> contribution_priority (snd d) = Some (NotebookEditorPriority_default_token nc)
           then Priority_default else Priority_option) \<and>
        (\<exists>d0 \<in> set (declarations exts).
           find (\<lambda>d'. contribution_viewType (snd d') = contribution_viewType (snd d)) (declarations exts)
             = Some d0 \<and>
           providers_get (setupHandler nc exts s) (contribution_viewType (snd d))
             = Some (contributedInfo nc (fst d0) (snd d0)) \<and>
           map_option info_priority
               (providers_get (setupHandler nc exts s) (contribution_viewType (snd d)))
             = Some (if contribution_priority (snd d0) = None \<or> contribution_priority (snd d0) = Some []
                        \<or> contribution_priority (snd d0) = Some (NotebookEditorPriority_default_token nc)
                     then Priority_default else Priority_option)))
   \<and> (\<forall>info \<in> set (Map_values (contributedEditors (setupHandler nc exts s))).
        \<exists>ext \<in> set exts. \<exists>c \<in> set (extension_value ext).
          info_id info = contribution_viewType c \<and>
          info_priority info =
            (if contribution_priority c = None \<or> contribution_priority c = Some []
                \<or> contribution_priority c = Some (NotebookEditorPriority_default_token nc)
             then Priority_default else Priority_option))"
proof (intro conjI allI ballI)
  fix vt
  show "providers_get (setupHandler nc exts s) vt =
       map_option (\<lambda>d. contributedInfo nc (fst d) (snd d))
         (find (\<lambda>d. contribution_viewType (snd d) = vt) (declarations exts))"
    by (rule setupHandler_get)
next
  fix d assume "d \<in> set (declarations exts)"
  show "info_id (contributedInfo nc (fst d) (snd d)) = contribution_viewType (snd d)"
    by (simp add: contributedInfo_priority)
next
  fix d assume "d \<in> set (declarations exts)"
  show "info_priority (contributedInfo nc (fst d) (snd d)) =
          (if contribution_priority (snd d) = None \<or> contribution_priority (snd d) = Some []
              \<or> contribution_priority (snd d) = Some (NotebookEditorPriority_default_token nc)
           then Priority_default else Priority_option)"
    by (simp add: contributedInfo_priority)
next
  fix d assume d: "d \<in> set (declarations exts)"
  let ?P = "\<lambda>d'. contribution_viewType (snd d') = contribution_viewType (snd d)"
  have "\<exists>d' \<in> set (declarations exts). ?P d'"
    using d by blast
  then have "find ?P (declarations exts) \<noteq> None"
    by (simp only: find_None_iff) blast
  then obtain d0 where f: "find ?P (declarations exts) = Some d0" by auto
  then have m: "d0 \<in> set (declarations exts)"
    by (auto simp: find_Some_iff)
  have g: "providers_get (setupHandler nc exts s) (contribution_viewType (snd d))
      = Some (contributedInfo nc (fst d0) (snd d0))"
    by (simp add: setupHandler_get f)
  have p: "map_option info_priority
               (providers_get (setupHandler nc exts s) (contribution_viewType (snd d)))
             = Some (if contribution_priority (snd d0) = None \<or> contribution_priority (snd d0) = Some []
                        \<or> contribution_priority (snd d0) = Some (NotebookEditorPriority_default_token nc)
                     then Priority_default else Priority_option)"
    unfolding g by (simp add: contributedInfo_priority)
  from m f g p show "\<exists>d0 \<in> set (declarations exts).
           find ?P (declarations exts) = Some d0 \<and>
           providers_get (setupHandler nc exts s) (contribution_viewType (snd d))
             = Some (contributedInfo nc (fst d0) (snd d0)) \<and>
           map_option info_priority
               (providers_get (setupHandler nc exts s) (contribution_viewType (snd d)))
             = Some (if contribution_priority (snd d0) = None \<or> contribution_priority (snd d0) = Some []
                        \<or> contribution_priority (snd d0) = Some (NotebookEditorPriority_default_token nc)
                     then Priority_default else Priority_option)"
    by blast
next
  fix info assume "info \<in> set (Map_values (contributedEditors (setupHandler nc exts s)))"
  then obtain ext c where ec: "ext \<in> set exts" "c \<in> set (extension_value ext)" "info = contributedInfo nc ext c"
    using setupHandler_declared by blast
  have "info_id info = contribution_viewType c \<and>
        info_priority info =
          (if contribution_priority c = None \<or> contribution_priority c = Some []
              \<or> contribution_priority c = Some (NotebookEditorPriority_default_token nc)
           then Priority_default else Priority_option)"
    unfolding ec(3) by (rule contributedInfo_priority)
  with ec(1,2) show "\<exists>ext \<in> set exts. \<exists>c \<in> set (extension_value ext).
        info_id info = contribution_viewType c \<and>
        info_priority info =
          (if contribution_priority c = None \<or> contribution_priority c = Some []
              \<or> contribution_priority c = Some (NotebookEditorPriority_default_token nc)
           then Priority_default else Priority_option)"
    by blast
qed

section \<open>Controllers\<close>

lemma dynamicInfo_simps:
  "info_id (dynamicInfo viewType extData ctrl vo) = viewType"
  "info_dynamicContribution (dynamicInfo viewType extData ctrl vo)"
  "info_update_options (controller_options ctrl) (dynamicInfo viewType extData ctrl vo)
     = dynamicInfo viewType extData ctrl vo"
  by (simp_all add: dynamicInfo_def info_update_options_def info_update_selectors_def)

lemma registerNotebookController_store:
  assumes "registerNotebookController viewType extData ctrl s = (Inr d, s1)"
  shows "d = ControllerRegistration viewType"
    and "viewOptions ctrl \<noteq> None \<Longrightarrow> providers_get (notebookProviderInfoStore s1) viewType \<noteq> None"
    and "viewOptions ctrl = Some vo \<Longrightarrow> providers_get (notebookProviderInfoStore s) viewType = None \<Longrightarrow>
         providers_get (notebookProviderInfoStore s1) viewType = Some (dynamicInfo viewType extData ctrl vo)"
  using assms
  by (auto simp: registerNotebookController_def Let_def providers_updateOptions_def providers_get_def
      providers_add_def Map_get_Map_set Map_has_get dynamicInfo_simps
      split: if_splits option.splits)

text \<open>
  Claim C10. Disposing the handle that \<^verbatim>\<open>registerNotebookController\<close> returned deletes
  the controller entry of that view type and fires the editor-types-changed event once more,
  and does nothing else: the provider-info store is the one the registration left, so a
  lookup of the view type still succeeds where the registration made it succeed, and it
  returns the dynamically synthesized entry where the controller declared view options and
  no entry existed before.
\<close>

theorem registerNotebookController_disposal:
  assumes "registerNotebookController viewType extData ctrl s = (Inr d, s1)"
  shows "dispose d s1 = s1\<lparr>notebookProviders := Map_delete (notebookProviders s1) viewType,
                           trace := trace s1 @ [Fire_DidChangeEditorTypes]\<rparr>
     \<and> Map_get (notebookProviders (dispose d s1)) viewType = None
     \<and> notebookProviderInfoStore (dispose d s1) = notebookProviderInfoStore s1
     \<and> (\<forall>vt. getContributedNotebookProvider (dispose d s1) vt = getContributedNotebookProvider s1 vt)
     \<and> (viewOptions ctrl \<noteq> None \<longrightarrow> getContributedNotebookProvider (dispose d s1) viewType \<noteq> None)
     \<and> (\<forall>vo. viewOptions ctrl = Some vo \<and> getContributedNotebookProvider s viewType = None \<longrightarrow>
          getContributedNotebookProvider (dispose d s1) viewType = Some (dynamicInfo viewType extData ctrl vo)
          \<and> info_dynamicContribution (dynamicInfo viewType extData ctrl vo))"
proof -
  note r = registerNotebookController_store[OF assms]
  have d: "dispose d s1 = s1\<lparr>notebookProviders := Map_delete (notebookProviders s1) viewType,
                           trace := trace s1 @ [Fire_DidChangeEditorTypes]\<rparr>"
    by (simp add: r(1))
  have st: "notebookProviderInfoStore (dispose d s1) = notebookProviderInfoStore s1"
    by (simp add: d)
  have g: "Map_get (notebookProviders (dispose d s1)) viewType = None"
    by (simp add: d Map_get_Map_delete)
  have dyn: "info_dynamicContribution (dynamicInfo viewType extData ctrl vo)" for vo
    by (simp add: dynamicInfo_simps)
  show ?thesis
    using d g st r(2) r(3) dyn by (simp add: getContributedNotebookProvider_def)
qed

section \<open>Model registry\<close>

text \<open>
  Claim C5. \<^verbatim>\<open>createNotebookTextModel\<close> fails with the already-exists error when a model
  is registered for the resource, and then returns the state it was given; otherwise it
  returns a new model built from its arguments, which \<^verbatim>\<open>getNotebookTextModel\<close> finds
  under the resource afterwards, the other resources are as before, and the last effect
  before it returns is the add event for that model.
\<close>

theorem createNotebookTextModel_duplicate:
  "(getNotebookTextModel s uri \<noteq> None \<longrightarrow>
      createNotebookTextModel viewType uri data transientOptions s = (Inl (NotebookAlreadyExists uri), s))
   \<and> (getNotebookTextModel s uri = None \<longrightarrow>
      (\<exists>m s'. createNotebookTextModel viewType uri data transientOptions s = (Inr m, s')
         \<and> model_uri m = uri \<and> model_viewType m = viewType
         \<and> model_cells m = data_cells data \<and> metadata m = data_metadata data
         \<and> getNotebookTextModel s' uri = Some m
         \<and> (\<forall>u. u \<noteq> uri \<longrightarrow> getNotebookTextModel s' u = getNotebookTextModel s u)
         \<and> trace s' = trace s @ [ModelsSet uri (model_handle m), Fire_DidAddNotebookDocument m]))"
  by (simp add: createNotebookTextModel_def getNotebookTextModel_def Let_def Map_has_get Map_get_Map_set)

lemma removalEvents_append: "removalEvents (xs @ ys) = removalEvents xs @ removalEvents ys"
  by (induction xs rule: removalEvents.induct) auto

lemma registry_wf_entry:
  assumes "registry_wf s" "Map_get (models s) uri = Some modelData"
  shows "model_uri (model modelData) = uri"
    and "model_handle (model modelData) \<in> willDisposeListeners s"
proof -
  have "(uri, modelData) \<in> set (models s)"
    using assms(2) by (simp add: Map_get_def map_of_SomeD)
  with assms(1) show "model_uri (model modelData) = uri"
    and "model_handle (model modelData) \<in> willDisposeListeners s"
    by (auto simp: registry_wf_def list_all_iff)
qed

lemma onWillDisposeDocument_unregistered:
  "Map_get (models s) (model_uri m) = None \<Longrightarrow> onWillDisposeDocument m s = models_delete (model_uri m) s"
  by (simp add: onWillDisposeDocument.simps)

lemma onWillDisposeDocument_registered:
  assumes "Map_get (models s) (model_uri m) = Some modelData"
    and "model_uri (model modelData) = model_uri m"
    and "model_handle (model modelData) \<in> willDisposeListeners s"
  shows "onWillDisposeDocument m s =
     fire_DidRemoveNotebookDocument (model_uri m)
       (ModelData_dispose modelData
         (model_dispose_end (model modelData)
           (models_delete (model_uri m)
             (model_dispose_begin (model modelData)
               (models_delete (model_uri m) s)))))"
proof -
  let ?s1 = "models_delete (model_uri m) s"
  let ?s2 = "model_dispose_begin (model modelData) ?s1"
  have gone: "Map_get (models ?s2) (model_uri (model modelData)) = None"
    by (simp add: assms(2) models_delete_def model_dispose_begin_def Map_get_Map_delete)
  have listening: "model_handle (model modelData) \<in> willDisposeListeners ?s2"
    using assms(3) by (simp add: models_delete_def model_dispose_begin_def)
  have "NotebookTextModel_dispose (model modelData) ?s1 =
      model_dispose_end (model modelData) (onWillDisposeDocument (model modelData) ?s2)"
    using listening by (simp add: NotebookTextModel_dispose.simps)
  also have "onWillDisposeDocument (model modelData) ?s2 = models_delete (model_uri m) ?s2"
    using onWillDisposeDocument_unregistered[OF gone] by (simp add: assms(2))
  finally show ?thesis
    using assms(1,2) by (simp add: onWillDisposeDocument.simps[of m s])
qed

lemma NotebookTextModel_dispose_registered:
  assumes "Map_get (models s) (model_uri (model modelData)) = Some modelData"
    and "model_handle (model modelData) \<in> willDisposeListeners s"
  shows "NotebookTextModel_dispose (model modelData) s =
     model_dispose_end (model modelData)
       (onWillDisposeDocument (model modelData) (model_dispose_begin (model modelData) s))"
  using assms(2) by (simp add: NotebookTextModel_dispose.simps model_dispose_begin_def)

lemma NotebookTextModel_dispose_detached:
  "model_handle m \<notin> willDisposeListeners s \<Longrightarrow>
   NotebookTextModel_dispose m s = model_dispose_end m (model_dispose_begin m s)"
  by (simp add: NotebookTextModel_dispose.simps model_dispose_begin_def)

lemmas registry_steps = models_delete_def model_dispose_begin_def model_dispose_end_def
  ModelData_dispose_def fire_DidRemoveNotebookDocument_def

lemma registry_wf_removed:
  assumes "registry_wf s" "Map_get (models s) uri = Some modelData"
  shows "registry_wf (s\<lparr>models := Map_delete (models s) uri,
                        willDisposeListeners := willDisposeListeners s - {model_handle (model modelData)},
                        disposedModels := D, trace := T\<rparr>)"
proof -
  have mem: "(uri, modelData) \<in> set (models s)"
    using assms(2) by (simp add: Map_get_def map_of_SomeD)
  have dh: "distinct (map (\<lambda>e. model_handle (model (snd e))) (models s))"
    using assms(1) by (simp add: registry_wf_def)
  have du: "distinct (map fst (models s))"
    using assms(1) by (simp add: registry_wf_def)
  have other: "model_handle (model (snd e)) \<noteq> model_handle (model modelData)"
    if "e \<in> set (models s)" "fst e \<noteq> uri" for e
  proof
    assume eq: "model_handle (model (snd e)) = model_handle (model modelData)"
    have inj: "inj_on (\<lambda>e. model_handle (model (snd e))) (set (models s))"
      using dh by (simp add: distinct_map)
    have "(\<lambda>e. model_handle (model (snd e))) e = (\<lambda>e. model_handle (model (snd e))) (uri, modelData)"
      using eq by simp
    with inj have "e = (uri, modelData)"
      using that(1) mem by (rule inj_onD)
    with that(2) show False by simp
  qed
  show ?thesis
    using assms(1) other
    by (auto simp: registry_wf_def Map_delete_def list_all_iff distinct_map_filter)
qed

lemma registry_wf_new: "registry_wf newNotebookService"
  by (simp add: registry_wf_def newNotebookService_def)

lemma registry_wf_create:
  assumes "registry_wf s"
  shows "registry_wf (snd (createNotebookTextModel viewType uri data transientOptions s))"
proof (cases "Map_has (models s) uri")
  case True
  then show ?thesis using assms by (simp add: createNotebookTextModel_def)
next
  case False
  have old: "model_handle (model (snd e)) < nextModelHandle s" if "e \<in> set (models s)" for e
    using assms that by (auto simp: registry_wf_def list_all_iff)
  have fresh: "nextModelHandle s \<notin> (\<lambda>e. model_handle (model (snd e))) ` set (models s)"
    using old by fastforce
  have key: "uri \<notin> fst ` set (models s)"
    using False by (simp add: Map_has_def)
  show ?thesis
    using assms False fresh key
    by (auto simp: createNotebookTextModel_def Let_def Map_set_new registry_wf_def list_all_iff
        less_Suc_eq)
qed

text \<open>
  Claim C4. Let a model be registered under a resource, in a state that satisfies the
  invariant of the index. Whether the disposal starts with \<^verbatim>\<open>destoryNotebookDocument\<close> or
  with the \<^verbatim>\<open>dispose\<close> of the model itself, the service deletes the resource from the index
  first, then calls \<^verbatim>\<open>dispose\<close> on the model (whose will-dispose signal runs the removal
  path again, which finds no entry and stops), then disposes the listener bundle of the
  \<^verbatim>\<open>ModelData\<close>, then fires the removal event. One removal event is fired, the lookup of
  the resource returns nothing afterwards, the invariant still holds, and disposing the model
  once more fires no further removal event.
\<close>

theorem model_disposal:
  assumes "registry_wf s" and "Map_get (models s) uri = Some modelData" and "model_uri notebook = uri"
  shows "(let s' = destoryNotebookDocument viewType notebook s; h = model_handle (model modelData) in
            models s' = Map_delete (models s) uri
          \<and> getNotebookTextModel s' uri = None
          \<and> trace s' = trace s @ [ModelsDelete uri, ModelDispose h, ModelsDelete uri,
                                   ModelDataDispose h, Fire_DidRemoveNotebookDocument uri]
          \<and> removalEvents (trace s') = removalEvents (trace s) @ [uri]
          \<and> h \<in> disposedModels s' \<and> h \<notin> willDisposeListeners s'
          \<and> registry_wf s'
          \<and> removalEvents (trace (NotebookTextModel_dispose (model modelData) s')) = removalEvents (trace s'))
       \<and> (let s' = NotebookTextModel_dispose (model modelData) s; h = model_handle (model modelData) in
            models s' = Map_delete (models s) uri
          \<and> getNotebookTextModel s' uri = None
          \<and> trace s' = trace s @ [ModelDispose h, ModelsDelete uri, ModelDispose h, ModelsDelete uri,
                                   ModelDataDispose h, Fire_DidRemoveNotebookDocument uri]
          \<and> removalEvents (trace s') = removalEvents (trace s) @ [uri]
          \<and> h \<in> disposedModels s' \<and> h \<notin> willDisposeListeners s'
          \<and> registry_wf s'
          \<and> removalEvents (trace (NotebookTextModel_dispose (model modelData) s')) = removalEvents (trace s'))"
proof -
  let ?m = "model modelData"
  let ?h = "model_handle ?m"
  note e = registry_wf_entry[OF assms(1,2)]
  have d: "destoryNotebookDocument viewType notebook s =
      s\<lparr>models := Map_delete (models s) uri,
        willDisposeListeners := willDisposeListeners s - {?h},
        disposedModels := insert ?h (disposedModels s),
        trace := trace s @ [ModelsDelete uri, ModelDispose ?h, ModelsDelete uri,
                            ModelDataDispose ?h, Fire_DidRemoveNotebookDocument uri]\<rparr>"
    unfolding destoryNotebookDocument_def
    using onWillDisposeDocument_registered[of s notebook modelData] assms(2,3) e
    by (simp add: registry_steps Map_delete_def)
  let ?b = "model_dispose_begin ?m s"
  have "NotebookTextModel_dispose ?m s = model_dispose_end ?m (onWillDisposeDocument ?m ?b)"
    using NotebookTextModel_dispose_registered[of s modelData] assms(2) e by simp
  also have "onWillDisposeDocument ?m ?b =
     fire_DidRemoveNotebookDocument (model_uri ?m)
       (ModelData_dispose modelData
         (model_dispose_end ?m
           (models_delete (model_uri ?m)
             (model_dispose_begin ?m
               (models_delete (model_uri ?m) ?b)))))"
    using assms(2) e by (intro onWillDisposeDocument_registered) (simp_all add: model_dispose_begin_def)
  finally have n: "NotebookTextModel_dispose ?m s =
      s\<lparr>models := Map_delete (models s) uri,
        willDisposeListeners := willDisposeListeners s - {?h},
        disposedModels := insert ?h (disposedModels s),
        trace := trace s @ [ModelDispose ?h, ModelsDelete uri, ModelDispose ?h, ModelsDelete uri,
                            ModelDataDispose ?h, Fire_DidRemoveNotebookDocument uri]\<rparr>"
    using e by (simp add: registry_steps Map_delete_def)
  have again: "removalEvents (trace (NotebookTextModel_dispose ?m s')) = removalEvents (trace s')"
    if "?h \<notin> willDisposeListeners s'" for s'
    using that by (simp add: NotebookTextModel_dispose_detached registry_steps removalEvents_append)
  have wf1: "registry_wf (destoryNotebookDocument viewType notebook s)"
    unfolding d using registry_wf_removed[OF assms(1,2)] by simp
  have wf2: "registry_wf (NotebookTextModel_dispose ?m s)"
    unfolding n using registry_wf_removed[OF assms(1,2)] by simp
  have p1: "models (destoryNotebookDocument viewType notebook s) = Map_delete (models s) uri"
    "getNotebookTextModel (destoryNotebookDocument viewType notebook s) uri = None"
    "trace (destoryNotebookDocument viewType notebook s) = trace s @ [ModelsDelete uri, ModelDispose ?h, ModelsDelete uri,
                                   ModelDataDispose ?h, Fire_DidRemoveNotebookDocument uri]"
    "removalEvents (trace (destoryNotebookDocument viewType notebook s)) = removalEvents (trace s) @ [uri]"
    "?h \<in> disposedModels (destoryNotebookDocument viewType notebook s)"
    "?h \<notin> willDisposeListeners (destoryNotebookDocument viewType notebook s)"
    by (simp_all add: d getNotebookTextModel_def Map_get_Map_delete removalEvents_append)
  have p2: "models (NotebookTextModel_dispose ?m s) = Map_delete (models s) uri"
    "getNotebookTextModel (NotebookTextModel_dispose ?m s) uri = None"
    "trace (NotebookTextModel_dispose ?m s) = trace s @ [ModelDispose ?h, ModelsDelete uri, ModelDispose ?h, ModelsDelete uri,
                                   ModelDataDispose ?h, Fire_DidRemoveNotebookDocument uri]"
    "removalEvents (trace (NotebookTextModel_dispose ?m s)) = removalEvents (trace s) @ [uri]"
    "?h \<in> disposedModels (NotebookTextModel_dispose ?m s)"
    "?h \<notin> willDisposeListeners (NotebookTextModel_dispose ?m s)"
    by (simp_all add: n getNotebookTextModel_def Map_get_Map_delete removalEvents_append)
  show ?thesis
    unfolding Let_def using p1 p2 wf1 wf2 again[OF p1(6)] again[OF p2(6)] by blast
qed

section \<open>Mime-type resolution\<close>

lemma collectMimeTypes_props:
  "distinct acc \<Longrightarrow> seen = set acc \<Longrightarrow>
   distinct (collectMimeTypes seen acc ops) \<and>
   set (collectMimeTypes seen acc ops) = set acc \<union> mime ` set ops"
  by (induction seen acc ops rule: collectMimeTypes.induct) auto

lemma collectMimeTypes_mimes:
  "map mime ops1 = map mime ops2 \<Longrightarrow> collectMimeTypes seen acc ops1 = collectMimeTypes seen acc ops2"
proof (induction seen acc ops1 arbitrary: ops2 rule: collectMimeTypes.induct)
  case (1 seen acc)
  then show ?case by simp
next
  case (2 seen acc op ops)
  then obtain op2 ops2' where o: "ops2 = op2 # ops2'" "mime op2 = mime op" "map mime ops = map mime ops2'"
    by (cases ops2) auto
  show ?case
    using 2 o by (cases "mime op \<in> seen") auto
qed

lemma foldl_snoc_map: "foldl (\<lambda>acc i. acc @ [g i]) a is = a @ map g is"
  by (induction "is" arbitrary: a) auto

lemma map_nth_from_one: "map (\<lambda>i. f (hs ! i)) [1 ..< length hs] = map f (tl hs)"
proof (cases hs)
  case Nil then show ?thesis by simp
next
  case (Cons h hs')
  have "map (\<lambda>i. f ((h # hs') ! i)) [Suc 0 ..< Suc (length hs')] = map (\<lambda>i. f (hs' ! i)) [0 ..< length hs']"
    by (simp only: map_Suc_upt[symmetric] map_map o_def nth_Cons_Suc)
  also have "\<dots> = map f (map (\<lambda>i. hs' ! i) [0 ..< length hs'])" by (simp add: o_def)
  also have "\<dots> = map f hs'" by (simp only: map_nth)
  finally show ?thesis using Cons by simp
qed

lemma foldl_push_rest:
  "foldl (\<lambda>acc i. acc @ [f (hs ! i)]) a [1 ..< length hs] = a @ map f (tl hs)"
  using foldl_snoc_map[of "\<lambda>i. f (hs ! i)" a "[1 ..< length hs]"]
  by (simp only: map_nth_from_one)

lemma pushOrderedMimeTypes_append:
  "pushOrderedMimeTypes nc s textModel acc m = acc @ entriesOf nc s textModel m"
proof (cases "findBestMatchedRenderer s m = []")
  case True
  then show ?thesis by (simp add: pushOrderedMimeTypes_def entriesOf_def)
next
  case False
  let ?hs = "findBestMatchedRenderer s m"
  let ?E = "\<lambda>h. \<lparr>mimeType = m, rendererId = renderer_id h, isTrusted = trusted (metadata textModel)\<rparr>"
  have "foldl (\<lambda>acc i. acc @ [?E (?hs ! i)]) (acc @ [?E (hd ?hs)]) [1 ..< length ?hs]
      = (acc @ [?E (hd ?hs)]) @ map ?E (tl ?hs)"
    by (rule foldl_push_rest)
  also have "\<dots> = acc @ map ?E (hd ?hs # tl ?hs)" by simp
  also have "hd ?hs # tl ?hs = ?hs" using False by simp
  finally have acc2: "foldl (\<lambda>acc i. acc @ [?E (?hs ! i)]) (acc @ [?E (hd ?hs)]) [1 ..< length ?hs]
      = acc @ map ?E ?hs" .
  show ?thesis
    using acc2 False by (simp add: pushOrderedMimeTypes_def Let_def entriesOf_def)
qed

lemma foldl_push: "foldl (pushOrderedMimeTypes nc s textModel) acc ms
    = acc @ concat (map (entriesOf nc s textModel) ms)"
  by (induction ms arbitrary: acc) (simp_all add: pushOrderedMimeTypes_append)

lemma getMimeTypeInfo_concat:
  "getMimeTypeInfo nc s textModel output
     = concat (map (entriesOf nc s textModel) (sortedMimeTypes s output))"
  by (simp add: getMimeTypeInfo_def Let_def foldl_push sortedMimeTypes_def)

lemma sortedMimeTypes_props:
  "distinct (sortedMimeTypes s output)"
  "set (sortedMimeTypes s output) = mime ` set (outputs output)"
  using collectMimeTypes_props[of "[]" "{}" "outputs output"]
  by (simp_all add: sortedMimeTypes_def sortMimeTypes_def)

lemma entriesOf_mimeType: "e \<in> set (entriesOf nc s textModel m) \<Longrightarrow> mimeType e = m"
  by (auto simp: entriesOf_def split: if_splits)

lemma filter_concat_entries:
  "distinct ms \<Longrightarrow> m \<in> set ms \<Longrightarrow>
   filter (\<lambda>e. mimeType e = m) (concat (map (entriesOf nc s textModel) ms)) = entriesOf nc s textModel m"
proof (induction ms)
  case Nil then show ?case by simp
next
  case (Cons a ms)
  have all: "filter (\<lambda>e. mimeType e = a) (entriesOf nc s textModel a) = entriesOf nc s textModel a"
    by (rule filter_True) (simp add: entriesOf_mimeType)
  have none: "m' \<noteq> m \<Longrightarrow> filter (\<lambda>e. mimeType e = m) (entriesOf nc s textModel m') = []" for m'
    by (rule filter_False) (auto dest: entriesOf_mimeType)
  have rest: "m \<notin> set ms \<Longrightarrow> filter (\<lambda>e. mimeType e = m) (concat (map (entriesOf nc s textModel) ms)) = []"
    by (rule filter_False) (auto dest: entriesOf_mimeType)
  show ?case
  proof (cases "a = m")
    case True
    with Cons.prems have "m \<notin> set ms" by simp
    then show ?thesis using True all rest by simp
  next
    case False
    with Cons.prems have "m \<in> set ms" "distinct ms" by auto
    then show ?thesis using False none[of a] Cons.IH by simp
  qed
qed

lemma getMimeTypeInfo_block:
  "m \<in> mime ` set (outputs output) \<Longrightarrow>
   filter (\<lambda>e. mimeType e = m) (getMimeTypeInfo nc s textModel output) = entriesOf nc s textModel m"
  unfolding getMimeTypeInfo_concat
  by (rule filter_concat_entries) (simp_all add: sortedMimeTypes_props)

lemma getMimeTypeInfo_mimeTypes:
  "mimeType ` set (getMimeTypeInfo nc s textModel output) \<subseteq> mime ` set (outputs output)"
  unfolding getMimeTypeInfo_concat
  using sortedMimeTypes_props(2)[of s "output"] by (auto dest: entriesOf_mimeType)

lemma entriesOf_nonempty: "entriesOf nc s textModel m \<noteq> []"
  by (simp add: entriesOf_def)

lemma findBestMatchedRenderer_store:
  "findBestMatchedRenderer s m
     = filter (\<lambda>r. m \<in> set (renderer_mimeTypes r)) (map snd (notebookRenderersInfoStore s))"
  by (simp add: findBestMatchedRenderer_def getContributedRenderer_def Map_values_def
      renderer_matches_def)

lemma renderers_add_new:
  "\<not> Map_has rs (renderer_id info) \<Longrightarrow> map snd (renderers_add info rs) = map snd rs @ [info]"
  by (simp add: renderers_add_def Map_set_new)

text \<open>
  Claim C1. Every mime type that occurs in the output occurs in the result of
  \<^verbatim>\<open>getMimeTypeInfo\<close>, and the renderer ids of its entries are, in this order: the ids of
  the renderers of the store whose mime types contain it, in the order of the store, followed
  by the built-in renderer if the core supports the mime type; if no renderer of the store
  has the mime type and the core does not support it, the one sentinel id. No mime type is
  dropped.
\<close>

theorem getMimeTypeInfo_complete:
  "\<forall>m \<in> mime ` set (outputs output).
     (\<exists>e \<in> set (getMimeTypeInfo nc s textModel output). mimeType e = m) \<and>
     map rendererId (filter (\<lambda>e. mimeType e = m) (getMimeTypeInfo nc s textModel output)) =
       map renderer_id
         (filter (\<lambda>r. m \<in> set (renderer_mimeTypes r)) (map snd (notebookRenderersInfoStore s))) @
       (if mimeTypeSupportedByCore nc m then [BUILTIN_RENDERER_ID nc]
        else if (\<forall>r \<in> set (map snd (notebookRenderersInfoStore s)). m \<notin> set (renderer_mimeTypes r))
        then [RENDERER_NOT_AVAILABLE nc]
        else [])"
proof
  fix m assume m: "m \<in> mime ` set (outputs output)"
  let ?block = "filter (\<lambda>e. mimeType e = m) (getMimeTypeInfo nc s textModel output)"
  let ?matching = "filter (\<lambda>r. m \<in> set (renderer_mimeTypes r)) (map snd (notebookRenderersInfoStore s))"
  have b: "?block = entriesOf nc s textModel m"
    using m by (rule getMimeTypeInfo_block)
  then have "?block \<noteq> []" by (simp add: entriesOf_nonempty)
  then obtain e where "e \<in> set ?block" by (cases ?block) auto
  then have ex: "\<exists>e \<in> set (getMimeTypeInfo nc s textModel output). mimeType e = m" by auto
  have none: "(?matching = []) =
      (\<forall>r \<in> set (map snd (notebookRenderersInfoStore s)). m \<notin> set (renderer_mimeTypes r))"
    by (simp only: filter_empty_conv)
  have "map rendererId ?block = map renderer_id ?matching @
       (if mimeTypeSupportedByCore nc m then [BUILTIN_RENDERER_ID nc]
        else if ?matching = [] then [RENDERER_NOT_AVAILABLE nc]
        else [])"
    unfolding b by (simp add: entriesOf_def o_def findBestMatchedRenderer_store)
  then have ids: "map rendererId ?block = map renderer_id ?matching @
       (if mimeTypeSupportedByCore nc m then [BUILTIN_RENDERER_ID nc]
        else if (\<forall>r \<in> set (map snd (notebookRenderersInfoStore s)). m \<notin> set (renderer_mimeTypes r))
        then [RENDERER_NOT_AVAILABLE nc]
        else [])"
    unfolding none .
  from ex ids show "(\<exists>e \<in> set (getMimeTypeInfo nc s textModel output). mimeType e = m) \<and>
     map rendererId ?block = map renderer_id ?matching @
       (if mimeTypeSupportedByCore nc m then [BUILTIN_RENDERER_ID nc]
        else if (\<forall>r \<in> set (map snd (notebookRenderersInfoStore s)). m \<notin> set (renderer_mimeTypes r))
        then [RENDERER_NOT_AVAILABLE nc]
        else [])" by (rule conjI)
qed

text \<open>
  Claim C2. The result of \<^verbatim>\<open>getMimeTypeInfo\<close> is a function of the sequence of mime
  types of the output, the two preference lists, the registered renderers and the trust flag
  of the document alone: two calls that agree on these return the same sequence of entries,
  whatever else differs between the two service states, documents and outputs.
\<close>

theorem getMimeTypeInfo_deterministic:
  assumes "map mime (outputs output1) = map mime (outputs output2)"
    and "displayOrder s1 = displayOrder s2"
    and "notebookRenderersInfoStore s1 = notebookRenderersInfoStore s2"
    and "trusted (metadata textModel1) = trusted (metadata textModel2)"
  shows "getMimeTypeInfo nc s1 textModel1 output1 = getMimeTypeInfo nc s2 textModel2 output2"
proof -
  have "collectMimeTypes {} [] (outputs output1) = collectMimeTypes {} [] (outputs output2)"
    using assms(1) by (rule collectMimeTypes_mimes)
  then have sorted: "sortedMimeTypes s1 output1 = sortedMimeTypes s2 output2"
    by (simp add: sortedMimeTypes_def assms(2))
  have "entriesOf nc s1 textModel1 = entriesOf nc s2 textModel2"
    by (rule ext) (simp add: entriesOf_def findBestMatchedRenderer_def assms(3,4))
  with sorted show ?thesis by (simp add: getMimeTypeInfo_concat)
qed

text \<open>
  Claim C3. Every entry of the result belongs to a mime type of the output, and the entries
  of one mime type are: one per matching renderer, each with the trust flag of the document;
  then, if the core supports the mime type, the built-in entry, trusted when the mime type is
  always secure or the document is trusted; and if nothing renders it, the sentinel entry
  with the trust flag of the document.
\<close>

theorem getMimeTypeInfo_trust:
  "(\<forall>e \<in> set (getMimeTypeInfo nc s textModel output). mimeType e \<in> mime ` set (outputs output)) \<and>
   (\<forall>m \<in> mime ` set (outputs output).
     filter (\<lambda>e. mimeType e = m) (getMimeTypeInfo nc s textModel output) =
       map (\<lambda>h. \<lparr>mimeType = m, rendererId = renderer_id h, isTrusted = trusted (metadata textModel)\<rparr>)
         (findBestMatchedRenderer s m)
       @ (if mimeTypeSupportedByCore nc m
          then [\<lparr>mimeType = m, rendererId = BUILTIN_RENDERER_ID nc,
                 isTrusted = (mimeTypeIsAlwaysSecure nc m \<or> trusted (metadata textModel))\<rparr>]
          else if findBestMatchedRenderer s m = []
          then [\<lparr>mimeType = m, rendererId = RENDERER_NOT_AVAILABLE nc,
                 isTrusted = trusted (metadata textModel)\<rparr>]
          else []))"
  using getMimeTypeInfo_mimeTypes[of nc s textModel "output"]
  by (auto simp: getMimeTypeInfo_block entriesOf_def)

section \<open>Kernel enumeration\<close>
















section \<open>The theorems on the example inputs\<close>

lemma example_renderers_eval:
  "example_renderers =
     [(''r1'', \<lparr>renderer_id = ''r1'', renderer_extension = ''ext.a'', renderer_entrypoint = ''a.js'',
                     renderer_displayName = ''First'', renderer_mimeTypes = [''text/html'']\<rparr>),
      (''r2'', \<lparr>renderer_id = ''r2'', renderer_extension = ''ext.b'', renderer_entrypoint = ''b.js'',
                     renderer_displayName = ''Second'', renderer_mimeTypes = [''text/html'', ''application/x-custom'']\<rparr>)]"
  by (simp add: example_renderers_def renderers_add_def renderers_clear_def Map_has_def)

lemma example_handlers:
  "map renderer_id (findBestMatchedRenderer example_service ''text/html'') = [''r1'', ''r2'']"
  by (simp add: findBestMatchedRenderer_def example_service_def newNotebookService_def
      example_renderers_eval getContributedRenderer_def Map_values_def renderer_matches_def)

text \<open>
  The whole resolution of the example output: the user order puts \<^verbatim>\<open>image/png\<close> first,
  the other mime types keep the order in which they were first seen, and the repeated
  \<^verbatim>\<open>text/html\<close> is resolved once.
\<close>

lemma example_resolution:
  "getMimeTypeInfo example_common example_service example_untrusted example_output =
     [\<lparr>mimeType = ''image/png'', rendererId = ''_builtin'', isTrusted = True\<rparr>,
      \<lparr>mimeType = ''text/html'', rendererId = ''r1'', isTrusted = False\<rparr>,
      \<lparr>mimeType = ''text/html'', rendererId = ''r2'', isTrusted = False\<rparr>,
      \<lparr>mimeType = ''text/html'', rendererId = ''_builtin'', isTrusted = False\<rparr>,
      \<lparr>mimeType = ''text/plain'', rendererId = ''_builtin'', isTrusted = True\<rparr>,
      \<lparr>mimeType = ''application/x-unknown'', rendererId = ''_notAvailable'', isTrusted = False\<rparr>]"
  by code_simp

theorem getMimeTypeInfo_complete_witness:
  "''text/html'' \<in> mime ` set (outputs example_output) \<and>
   (\<exists>e \<in> set (getMimeTypeInfo example_common example_service example_untrusted example_output).
       mimeType e = ''text/html'') \<and>
   map renderer_id (filter (\<lambda>r. ''text/html'' \<in> set (renderer_mimeTypes r))
       (map snd (notebookRenderersInfoStore example_service))) = [''r1'', ''r2''] \<and>
   map rendererId (filter (\<lambda>e. mimeType e = ''text/html'')
       (getMimeTypeInfo example_common example_service example_untrusted example_output))
     = [''r1'', ''r2'', ''_builtin'']"
proof -
  have mem: "''text/html'' \<in> mime ` set (outputs example_output)"
    by (simp add: example_output_def)
  have core: "mimeTypeSupportedByCore example_common ''text/html''"
    "BUILTIN_RENDERER_ID example_common = ''_builtin''"
    by (simp_all add: example_common_def)
  have matching: "map renderer_id (filter (\<lambda>r. ''text/html'' \<in> set (renderer_mimeTypes r))
       (map snd (notebookRenderersInfoStore example_service))) = [''r1'', ''r2'']"
    by (simp add: example_service_def newNotebookService_def example_renderers_eval)
  from bspec[OF getMimeTypeInfo_complete mem, of example_common example_service example_untrusted]
  have "(\<exists>e \<in> set (getMimeTypeInfo example_common example_service example_untrusted example_output).
       mimeType e = ''text/html'') \<and>
     map rendererId (filter (\<lambda>e. mimeType e = ''text/html'')
       (getMimeTypeInfo example_common example_service example_untrusted example_output))
     = [''r1'', ''r2'', ''_builtin'']"
    unfolding matching by (simp add: core)
  with mem matching show ?thesis by blast
qed

theorem getMimeTypeInfo_deterministic_witness:
  "map mime (outputs example_output) = map mime (outputs example_output_again) \<and>
   displayOrder example_service = displayOrder example_service_later \<and>
   notebookRenderersInfoStore example_service = notebookRenderersInfoStore example_service_later \<and>
   trusted (metadata example_untrusted) = trusted (metadata example_trusted_elsewhere) \<and>
   example_output \<noteq> example_output_again \<and> example_service \<noteq> example_service_later \<and>
   example_untrusted \<noteq> example_trusted_elsewhere \<and>
   getMimeTypeInfo example_common example_service example_untrusted example_output
     = getMimeTypeInfo example_common example_service_later example_trusted_elsewhere example_output_again"
proof -
  have h1: "map mime (outputs example_output) = map mime (outputs example_output_again)"
    by (simp add: example_output_def example_output_again_def)
  have h2: "displayOrder example_service = displayOrder example_service_later"
    by (simp add: example_service_later_def)
  have h3: "notebookRenderersInfoStore example_service = notebookRenderersInfoStore example_service_later"
    by (simp add: example_service_later_def)
  have h4: "trusted (metadata example_untrusted) = trusted (metadata example_trusted_elsewhere)"
    by (simp add: example_untrusted_def example_trusted_elsewhere_def)
  have d1: "example_output \<noteq> example_output_again"
    by (simp add: example_output_def example_output_again_def)
  have d2: "example_service \<noteq> example_service_later"
  proof
    assume "example_service = example_service_later"
    then have "trace example_service = trace example_service_later" by simp
    then show False
      by (simp add: example_service_later_def example_service_def newNotebookService_def)
  qed
  have d3: "example_untrusted \<noteq> example_trusted_elsewhere"
    by (simp add: example_untrusted_def example_trusted_elsewhere_def)
  from getMimeTypeInfo_deterministic[OF h1 h2 h3 h4, of example_common] h1 h2 h3 h4 d1 d2 d3 show ?thesis by simp
qed

theorem getMimeTypeInfo_trust_witness:
  "''text/html'' \<in> mime ` set (outputs example_output) \<and>
   \<not> trusted (metadata example_untrusted) \<and>
   \<not> mimeTypeIsAlwaysSecure example_common ''text/html'' \<and>
   filter (\<lambda>e. mimeType e = ''text/html'')
       (getMimeTypeInfo example_common example_service example_untrusted example_output)
     = [\<lparr>mimeType = ''text/html'', rendererId = ''r1'', isTrusted = False\<rparr>,
        \<lparr>mimeType = ''text/html'', rendererId = ''r2'', isTrusted = False\<rparr>,
        \<lparr>mimeType = ''text/html'', rendererId = ''_builtin'', isTrusted = False\<rparr>]"
proof -
  have mem: "''text/html'' \<in> mime ` set (outputs example_output)"
    by (simp add: example_output_def)
  have nc: "mimeTypeSupportedByCore example_common ''text/html''"
    "BUILTIN_RENDERER_ID example_common = ''_builtin''"
    "\<not> mimeTypeIsAlwaysSecure example_common ''text/html''"
    by (simp_all add: example_common_def)
  have u: "\<not> trusted (metadata example_untrusted)"
    by (simp add: example_untrusted_def)
  have hs: "map (\<lambda>h. \<lparr>mimeType = ''text/html'', rendererId = renderer_id h, isTrusted = False\<rparr>)
              (findBestMatchedRenderer example_service ''text/html'')
          = [\<lparr>mimeType = ''text/html'', rendererId = ''r1'', isTrusted = False\<rparr>,
             \<lparr>mimeType = ''text/html'', rendererId = ''r2'', isTrusted = False\<rparr>]"
    by (simp add: findBestMatchedRenderer_def example_service_def newNotebookService_def
      example_renderers_eval getContributedRenderer_def Map_values_def renderer_matches_def)
  from bspec[OF conjunct2[OF getMimeTypeInfo_trust] mem, of example_common example_service example_untrusted]
  show ?thesis using mem nc u hs by simp
qed

lemma example_registered_eval:
  "createNotebookTextModel ''jupyter-notebook'' example_file example_data example_options newNotebookService
     = (Inr example_untrusted, example_registered)"
  "example_registered =
     newNotebookService\<lparr>models := [(example_file, \<lparr>model = example_untrusted\<rparr>)],
        trace := [ModelsSet example_file 0, Fire_DidAddNotebookDocument example_untrusted],
        nextModelHandle := 1, willDisposeListeners := {0}\<rparr>"
  by (simp_all add: example_registered_def createNotebookTextModel_def Let_def newNotebookService_def
      Map_has_def example_untrusted_def example_data_def example_options_def)

theorem model_disposal_witness:
  "registry_wf example_registered \<and>
   Map_get (models example_registered) example_file = Some \<lparr>model = example_untrusted\<rparr> \<and>
   model_uri example_untrusted = example_file \<and>
   getNotebookTextModel (destoryNotebookDocument ''jupyter-notebook'' example_untrusted example_registered)
     example_file = None \<and>
   trace (destoryNotebookDocument ''jupyter-notebook'' example_untrusted example_registered) =
     [ModelsSet example_file 0, Fire_DidAddNotebookDocument example_untrusted,
      ModelsDelete example_file, ModelDispose 0, ModelsDelete example_file, ModelDataDispose 0,
      Fire_DidRemoveNotebookDocument example_file] \<and>
   trace (NotebookTextModel_dispose example_untrusted example_registered) =
     [ModelsSet example_file 0, Fire_DidAddNotebookDocument example_untrusted,
      ModelDispose 0, ModelsDelete example_file, ModelDispose 0, ModelsDelete example_file,
      ModelDataDispose 0, Fire_DidRemoveNotebookDocument example_file]"
proof -
  have h1: "registry_wf example_registered"
    by (simp add: example_registered_eval(2) registry_wf_def newNotebookService_def example_untrusted_def)
  have h2: "Map_get (models example_registered) example_file = Some \<lparr>model = example_untrusted\<rparr>"
    by (simp add: example_registered_eval(2) Map_get_def)
  have h3: "model_uri example_untrusted = example_file"
    by (simp add: example_untrusted_def)
  have t: "trace example_registered = [ModelsSet example_file 0, Fire_DidAddNotebookDocument example_untrusted]"
    "model_handle example_untrusted = 0"
    by (simp_all add: example_registered_eval(2) example_untrusted_def)
  from model_disposal[OF h1 h2 h3, of "''jupyter-notebook''"] h1 h2 h3 t
  show ?thesis by (simp add: Let_def)
qed

theorem createNotebookTextModel_duplicate_witness:
  "getNotebookTextModel example_registered example_file \<noteq> None \<and>
   createNotebookTextModel ''jupyter-notebook'' example_file example_data example_options example_registered
     = (Inl (NotebookAlreadyExists example_file), example_registered) \<and>
   getNotebookTextModel newNotebookService example_file = None \<and>
   (\<exists>m s'. createNotebookTextModel ''jupyter-notebook'' example_file example_data example_options
               newNotebookService = (Inr m, s')
      \<and> getNotebookTextModel s' example_file = Some m
      \<and> trace s' = trace newNotebookService @ [ModelsSet example_file (model_handle m), Fire_DidAddNotebookDocument m])"
proof -
  have h1: "getNotebookTextModel example_registered example_file \<noteq> None"
    by (simp add: example_registered_eval(2) getNotebookTextModel_def Map_get_def)
  have h2: "getNotebookTextModel newNotebookService example_file = None"
    by (simp add: newNotebookService_def getNotebookTextModel_def Map_get_def)
  from createNotebookTextModel_duplicate[of example_registered example_file "''jupyter-notebook''" example_data example_options] h1
  have a: "createNotebookTextModel ''jupyter-notebook'' example_file example_data example_options example_registered
     = (Inl (NotebookAlreadyExists example_file), example_registered)" by blast
  from createNotebookTextModel_duplicate[of newNotebookService example_file "''jupyter-notebook''" example_data example_options] h2
  have b: "\<exists>m s'. createNotebookTextModel ''jupyter-notebook'' example_file example_data example_options
               newNotebookService = (Inr m, s')
      \<and> getNotebookTextModel s' example_file = Some m
      \<and> trace s' = trace newNotebookService @ [ModelsSet example_file (model_handle m), Fire_DidAddNotebookDocument m]"
    by blast
  from h1 a h2 b show ?thesis by blast
qed






lemma example_infos:
  "info_id (contributedInfo nc extension c) = contribution_viewType c"
  "contribution_viewType example_contribution_absent = ''jupyter-notebook''"
  "contribution_viewType example_contribution_empty = ''empty-priority''"
  "contribution_viewType example_contribution_option = ''interactive''"
  "contribution_viewType example_contribution_default = ''exact''"
  "contribution_viewType example_contribution_duplicate = ''jupyter-notebook''"
  by (simp_all add: contributedInfo_def example_contribution_absent_def example_contribution_empty_def
      example_contribution_option_def example_contribution_default_def example_contribution_duplicate_def)

lemma example_providers_eval:
  "contributedEditors example_providers =
     [(''jupyter-notebook'', contributedInfo example_common example_extension example_contribution_absent),
      (''empty-priority'', contributedInfo example_common example_extension example_contribution_empty),
      (''interactive'', contributedInfo example_common example_extension example_contribution_option),
      (''exact'', contributedInfo example_common example_extension example_contribution_default)]"
proof -
  have v: "extension_value example_extension =
        [example_contribution_absent, example_contribution_empty, example_contribution_option,
         example_contribution_default, example_contribution_duplicate]"
    by (simp add: example_extension_def)
  have c: "contributedEditors (providers_clear (newProviderInfoStore\<lparr>handled := True\<rparr>)) = []"
    by (simp add: providers_clear_def)
  show ?thesis
    unfolding example_providers_def setupHandler_editors
    by (simp add: v c providers_add_editors Map_has_def example_infos)
qed

lemma example_declarations:
  "declarations [example_extension] =
     [(example_extension, example_contribution_absent), (example_extension, example_contribution_empty),
      (example_extension, example_contribution_option), (example_extension, example_contribution_default),
      (example_extension, example_contribution_duplicate)]"
  by (simp add: declarations_def example_extension_def)

theorem setupHandler_priority_witness:
  "(example_extension, example_contribution_duplicate) \<in> set (declarations [example_extension])
   \<and> contribution_viewType example_contribution_duplicate = ''jupyter-notebook''
   \<and> providers_get (setupHandler example_common [example_extension] newProviderInfoStore) ''jupyter-notebook''
       = Some (contributedInfo example_common example_extension example_contribution_absent)
   \<and> map_option info_priority
        (providers_get (setupHandler example_common [example_extension] newProviderInfoStore) ''jupyter-notebook'')
       = Some Priority_default
   \<and> info_priority (contributedInfo example_common example_extension example_contribution_duplicate)
       = Priority_option
   \<and> contributedInfo example_common example_extension example_contribution_option
      \<in> set (Map_values (contributedEditors (setupHandler example_common [example_extension] newProviderInfoStore)))
   \<and> (\<exists>ext \<in> set [example_extension]. \<exists>c \<in> set (extension_value ext).
        info_id (contributedInfo example_common example_extension example_contribution_option)
          = contribution_viewType c \<and>
        info_priority (contributedInfo example_common example_extension example_contribution_option) =
          (if contribution_priority c = None \<or> contribution_priority c = Some []
              \<or> contribution_priority c = Some (NotebookEditorPriority_default_token example_common)
           then Priority_default else Priority_option))"
proof -
  note sp = setupHandler_priority[of example_common "[example_extension]" newProviderInfoStore]
  let ?store = "setupHandler example_common [example_extension] newProviderInfoStore"
  let ?dup = "(example_extension, example_contribution_duplicate)"
  have d: "?dup \<in> set (declarations [example_extension])"
    by (simp add: example_declarations)
  have v: "contribution_viewType example_contribution_duplicate = ''jupyter-notebook''"
    by (simp add: example_infos)
  have f: "find (\<lambda>d'. contribution_viewType (snd d') = ''jupyter-notebook'') (declarations [example_extension])
      = Some (example_extension, example_contribution_absent)"
    by (simp add: example_declarations example_infos)
  from bspec[OF conjunct1[OF conjunct2[OF sp]] d]
  obtain d0 where d0: "find (\<lambda>d'. contribution_viewType (snd d') = contribution_viewType (snd ?dup))
        (declarations [example_extension]) = Some d0"
    "providers_get ?store (contribution_viewType (snd ?dup))
       = Some (contributedInfo example_common (fst d0) (snd d0))"
    "map_option info_priority (providers_get ?store (contribution_viewType (snd ?dup)))
       = Some (if contribution_priority (snd d0) = None \<or> contribution_priority (snd d0) = Some []
                  \<or> contribution_priority (snd d0) = Some (NotebookEditorPriority_default_token example_common)
               then Priority_default else Priority_option)"
    by blast
  have e: "d0 = (example_extension, example_contribution_absent)"
    using d0(1) f by (simp add: v)
  have g: "providers_get ?store ''jupyter-notebook''
       = Some (contributedInfo example_common example_extension example_contribution_absent)"
    using d0(2) by (simp add: e v)
  have p: "map_option info_priority (providers_get ?store ''jupyter-notebook'') = Some Priority_default"
    using d0(3) by (simp add: e v example_contribution_absent_def)
  have q: "info_priority (contributedInfo example_common example_extension example_contribution_duplicate)
       = Priority_option"
    using bspec[OF conjunct1[OF conjunct2[OF sp]] d]
    by (simp add: example_contribution_duplicate_def example_common_def)
  have mem: "contributedInfo example_common example_extension example_contribution_option
      \<in> set (Map_values (contributedEditors ?store))"
    using example_providers_eval by (simp add: example_providers_def Map_values_def)
  from d v g p q mem bspec[OF conjunct2[OF conjunct2[OF sp]] mem] show ?thesis by blast
qed

text \<open>
  Against claim C7 as worded: a declaration whose priority is the empty string, and one
  without a priority, are stored with the default priority, although neither is the default
  token.
\<close>

theorem convertPriority_counterexample:
  "contribution_priority example_contribution_empty = Some ''''
   \<and> Some '''' \<noteq> Some (NotebookEditorPriority_default_token example_common)
   \<and> map_option info_priority (providers_get example_providers ''empty-priority'') = Some Priority_default
   \<and> contribution_priority example_contribution_absent = None
   \<and> map_option info_priority (providers_get example_providers ''jupyter-notebook'') = Some Priority_default"
  by (simp add: providers_get_def Map_get_def example_providers_eval contributedInfo_def
      convertPriority_def example_contribution_empty_def example_contribution_absent_def example_common_def)

lemma example_matches:
  "info_matches example_common (contributedInfo example_common example_extension example_contribution_absent) example_file"
  "\<not> info_matches example_common (contributedInfo example_common example_extension example_contribution_empty) example_file"
  "\<not> info_matches example_common (contributedInfo example_common example_extension example_contribution_option) example_file"
  "\<not> info_matches example_common (contributedInfo example_common example_extension example_contribution_default) example_file"
  by (simp_all add: info_matches_def contributedInfo_def example_common_def example_file_def
      example_contribution_absent_def example_contribution_empty_def
      example_contribution_option_def example_contribution_default_def)

theorem getContributedNotebook_untitled_witness:
  "scheme example_untitled = ''untitled''
   \<and> map info_id (getContributedNotebook example_common example_providers example_untitled)
       = [''jupyter-notebook'', ''empty-priority'', ''interactive'', ''exact'']
   \<and> scheme example_file \<noteq> ''untitled''
   \<and> map info_id (getContributedNotebook example_common example_providers example_file)
       = [''jupyter-notebook'']"
proof -
  have h1: "scheme example_untitled = ''untitled''" by (simp add: example_untitled_def)
  have h2: "scheme example_file \<noteq> ''untitled''" by (simp add: example_file_def)
  from getContributedNotebook_untitled[of example_untitled example_common example_providers] h1
  have a: "getContributedNotebook example_common example_providers example_untitled
      = Map_values (contributedEditors example_providers)" by blast
  from getContributedNotebook_untitled[of example_file example_common example_providers] h2
  have b: "getContributedNotebook example_common example_providers example_file
      = filter (\<lambda>info. info_matches example_common info example_file)
          (Map_values (contributedEditors example_providers))" by blast
  show ?thesis
    unfolding a b using h1 h2
    by (simp add: example_providers_eval Map_values_def example_infos example_matches)
qed

theorem add_existing_id_is_noop_witness:
  "providers_get example_providers
       (info_id (contributedInfo example_common example_extension example_contribution_duplicate))
     = Some (contributedInfo example_common example_extension example_contribution_absent)
   \<and> contributedInfo example_common example_extension example_contribution_duplicate
       \<noteq> contributedInfo example_common example_extension example_contribution_absent
   \<and> providers_add (contributedInfo example_common example_extension example_contribution_duplicate)
        example_providers = example_providers
   \<and> providers_get example_providers ''jupyter-notebook''
       = Some (contributedInfo example_common example_extension example_contribution_absent)
   \<and> renderers_get example_renderers (renderer_id example_late_renderer)
       = Some \<lparr>renderer_id = ''r1'', renderer_extension = ''ext.a'', renderer_entrypoint = ''a.js'',
               renderer_displayName = ''First'', renderer_mimeTypes = [''text/html'']\<rparr>
   \<and> renderers_add example_late_renderer example_renderers = example_renderers"
proof -
  let ?dup = "contributedInfo example_common example_extension example_contribution_duplicate"
  let ?orig = "contributedInfo example_common example_extension example_contribution_absent"
  have h1: "providers_get example_providers (info_id ?dup) = Some ?orig"
    by (simp add: providers_get_def Map_get_def example_providers_eval example_infos)
  have h2: "renderers_get example_renderers (renderer_id example_late_renderer)
       = Some \<lparr>renderer_id = ''r1'', renderer_extension = ''ext.a'', renderer_entrypoint = ''a.js'',
               renderer_displayName = ''First'', renderer_mimeTypes = [''text/html'']\<rparr>"
    by (simp add: renderers_get_def Map_get_def example_renderers_eval example_late_renderer_def)
  have d: "?dup \<noteq> ?orig"
    by (simp add: contributedInfo_def example_contribution_duplicate_def example_contribution_absent_def)
  have g: "providers_get example_providers ''jupyter-notebook'' = Some ?orig"
    using h1 by (simp add: example_infos)
  from add_existing_id_is_noop[of example_providers ?dup ?orig example_renderers example_late_renderer] h1 h2 d g
  show ?thesis by simp
qed

theorem registerNotebookController_disposal_witness:
  "registerNotebookController ''dynamic-view'' example_extensionData example_controller newNotebookService
     = (Inr (ControllerRegistration ''dynamic-view''), example_controller_registered)
   \<and> Map_get (notebookProviders example_controller_registered) ''dynamic-view''
       = Some \<lparr>controller = example_controller, extensionData = example_extensionData\<rparr>
   \<and> Map_get (notebookProviders
         (dispose (ControllerRegistration ''dynamic-view'') example_controller_registered)) ''dynamic-view''
       = None
   \<and> map_option info_dynamicContribution
        (getContributedNotebookProvider
           (dispose (ControllerRegistration ''dynamic-view'') example_controller_registered) ''dynamic-view'')
       = Some True
   \<and> trace (dispose (ControllerRegistration ''dynamic-view'') example_controller_registered)
       = [Fire_DidChangeEditorTypes, Fire_DidChangeEditorTypes]"
proof -
  have h: "registerNotebookController ''dynamic-view'' example_extensionData example_controller newNotebookService
     = (Inr (ControllerRegistration ''dynamic-view''), example_controller_registered)"
    by (simp add: example_controller_registered_def registerNotebookController_def Let_def
        newNotebookService_def Map_has_def example_controller_def providers_get_def Map_get_def
        newProviderInfoStore_def)
  have v: "viewOptions example_controller =
      Some \<lparr>viewOptions_displayName = ''Dynamic'', viewOptions_filenamePattern = [''.dyn''],
                          viewOptions_exclusive = False\<rparr>"
    by (simp add: example_controller_def)
  have n: "getContributedNotebookProvider newNotebookService ''dynamic-view'' = None"
    by (simp add: getContributedNotebookProvider_def providers_get_def Map_get_def
        newNotebookService_def newProviderInfoStore_def)
  have p: "Map_get (notebookProviders example_controller_registered) ''dynamic-view''
       = Some \<lparr>controller = example_controller, extensionData = example_extensionData\<rparr>"
    by (simp add: example_controller_registered_def registerNotebookController_def Let_def
        newNotebookService_def Map_has_def Map_get_def split: option.splits)
  have t: "trace example_controller_registered = [Fire_DidChangeEditorTypes]"
    by (simp add: example_controller_registered_def registerNotebookController_def Let_def
        newNotebookService_def Map_has_def split: option.splits)
  note cd = registerNotebookController_disposal[OF h]
  let ?after = "dispose (ControllerRegistration ''dynamic-view'') example_controller_registered"
  have g: "Map_get (notebookProviders ?after) ''dynamic-view'' = None"
    using cd by blast
  have dyn: "getContributedNotebookProvider ?after ''dynamic-view''
      = Some (dynamicInfo ''dynamic-view'' example_extensionData example_controller
          \<lparr>viewOptions_displayName = ''Dynamic'', viewOptions_filenamePattern = [''.dyn''],
           viewOptions_exclusive = False\<rparr>)"
    using cd v n by blast
  have "?after = example_controller_registered
      \<lparr>notebookProviders := Map_delete (notebookProviders example_controller_registered) ''dynamic-view'',
       trace := trace example_controller_registered @ [Fire_DidChangeEditorTypes]\<rparr>"
    using cd by blast
  then have tr: "trace ?after = [Fire_DidChangeEditorTypes, Fire_DidChangeEditorTypes]"
    by (simp add: t)
  have dc: "map_option info_dynamicContribution (getContributedNotebookProvider ?after ''dynamic-view'')
      = Some True"
    unfolding dyn by (simp add: dynamicInfo_simps)
  from h p g dc tr show ?thesis by blast
qed

end
